theory Spec2Isabelle
  imports Main
begin

section \<open>String helpers of the Go standard library used by the routes\<close>

text \<open>
  \<^verbatim>\<open>strings.HasPrefix\<close>, \<^verbatim>\<open>strings.HasSuffix\<close>, \<^verbatim>\<open>strings.TrimSuffix\<close>,
  \<^verbatim>\<open>strings.Index\<close> and \<^verbatim>\<open>strings.Contains\<close> on byte strings. \<^verbatim>\<open>Index\<close>
  returns the position of the first occurrence, or \<open>-1\<close>.
\<close>

definition strings_HasPrefix :: "string \<Rightarrow> string \<Rightarrow> bool" where
  "strings_HasPrefix s pre = (take (length pre) s = pre)"

definition strings_HasSuffix :: "string \<Rightarrow> string \<Rightarrow> bool" where
  "strings_HasSuffix s suf =
     (length suf \<le> length s \<and> drop (length s - length suf) s = suf)"

definition strings_TrimSuffix :: "string \<Rightarrow> string \<Rightarrow> string" where
  "strings_TrimSuffix s suf =
     (if strings_HasSuffix s suf then take (length s - length suf) s else s)"

fun indexFrom :: "int \<Rightarrow> string \<Rightarrow> string \<Rightarrow> int" where
  "indexFrom i [] sub = (if sub = [] then i else - 1)"
| "indexFrom i (c # cs) sub =
     (if strings_HasPrefix (c # cs) sub then i else indexFrom (i + 1) cs sub)"

definition strings_Index :: "string \<Rightarrow> string \<Rightarrow> int" where
  "strings_Index s sub = indexFrom 0 s sub"

definition strings_Contains :: "string \<Rightarrow> string \<Rightarrow> bool" where
  "strings_Contains s sub = (strings_Index s sub \<ge> 0)"

section \<open>Handlers, middlewares and the request-time world\<close>

text \<open>
  Modelled from the spec: the request context (type \<^verbatim>\<open>Context\<close> is not under src/) is
  the narrow capability set of the spec's external interfaces: read a request header
  (\<^verbatim>\<open>GetHeader\<close>, the empty string when the header is absent), retrieve a bound
  path parameter by name (\<^verbatim>\<open>URLParam\<close>), write response headers, status and body.
\<close>

record Context =
  reqHeader :: "string \<Rightarrow> string"
  urlParam :: "string \<Rightarrow> string"
  respHeader :: "(string \<times> string) list"
  respStatus :: int
  respBody :: string

text \<open>
  Modelled from the spec: a classified failure (type \<^verbatim>\<open>HTTPError\<close> is not under src/):
  a status code and the wrapped error message. \<^verbatim>\<open>ErrBadRequest\<close> is the client-error
  class (400), \<^verbatim>\<open>http.StatusInternalServerError\<close> the server-fault class (500).
\<close>

datatype HTTPError = HTTPError (Code: int) (Msg: string)

definition StatusOK :: int where "StatusOK = 200"
definition StatusBadRequest :: int where "StatusBadRequest = 400"
definition StatusInternalServerError :: int where "StatusInternalServerError = 500"

definition ErrBadRequest_NewError :: "string \<Rightarrow> HTTPError" where
  "ErrBadRequest_NewError msg = HTTPError StatusBadRequest msg"

text \<open>The header predicate of a route: \<^verbatim>\<open>type kvalues struct { Key; Values }\<close>.\<close>

record kvalues =
  Key :: string
  Values :: "string list"

text \<open>
  A file as \<^verbatim>\<open>os.Open\<close> hands it out: what \<^verbatim>\<open>Stat\<close> answers and what reading it
  to the end gives; each may fail with an operating-system error.
\<close>

record FileInfo =
  IsDir :: bool
  Size :: int

record OsFile =
  Stat :: "string + FileInfo"
  ReadAll :: "string + string"

text \<open>
  A handler is a closure: when a request arrives it may read mutable state that it
  captured by reference. The world collects that state: the \<^verbatim>\<open>headers\<close> field of every
  \<^verbatim>\<open>Route\<close> object (by address), and the file system.
\<close>

type_synonym addr = nat

record World =
  routeHeaders :: "addr \<Rightarrow> kvalues list"
  files :: "string \<Rightarrow> string + OsFile"

text \<open>\<^verbatim>\<open>type Handler func(*Context) error\<close> and \<^verbatim>\<open>type Middleware func(Handler) Handler\<close>.\<close>

type_synonym Handler = "World \<Rightarrow> Context \<Rightarrow> HTTPError option \<times> Context"
type_synonym Middleware = "Handler \<Rightarrow> Handler"

section \<open>Routes\<close>

text \<open>
  \<^verbatim>\<open>type Route struct\<close>; the back references \<^verbatim>\<open>ship\<close> and \<^verbatim>\<open>group\<close> are passed
  explicitly. Routes are used through pointers, so the registration state holds a heap of
  them.
\<close>

record Route =
  host :: string
  path :: string
  name :: string
  mdwares :: "Middleware list"
  headers :: "kvalues list"

text \<open>
  The panics of the route and group builders. \<open>ShipPanic\<close> is a panic raised inside the
  dispatcher's own registration.
\<close>

datatype 'x panic =
    HandlerNil
  | NoMethods
  | PathEmpty
  | PathNoSlash string
  | PathDoubleSlash string int
  | TooManyMiddlewares int int
  | URLParamsInStatic
  | PrefixEmpty
  | PrefixNoSlash string
  | ShipPanic 'x

fun isShipPanic :: "'x panic \<Rightarrow> bool" where
  "isShipPanic (ShipPanic x) = True"
| "isShipPanic _ = False"

text \<open>
  The dispatcher \<^verbatim>\<open>Ship\<close> is not under src/: its field \<^verbatim>\<open>MiddlewareMaxNum\<close> is read by
  the routes, the rest of it is the opaque \<open>table\<close>. Its registration
  \<^verbatim>\<open>Ship.addRoute(name, host, path, method, handler)\<close> is a parameter \<open>reg\<close> of every
  function that calls it: it may change the ship and may panic.
\<close>

record 'd Ship =
  MiddlewareMaxNum :: int
  table :: 'd

type_synonym ('d, 'x) registrar =
  "string \<Rightarrow> string \<Rightarrow> string \<Rightarrow> string \<Rightarrow> Handler \<Rightarrow> 'd Ship \<Rightarrow> 'x option \<times> 'd Ship"

record 'd Prog =
  heap :: "addr \<Rightarrow> Route"
  ship :: "'d Ship"

definition updRoute :: "addr \<Rightarrow> (Route \<Rightarrow> Route) \<Rightarrow> 'd Prog \<Rightarrow> 'd Prog" where
  "updRoute r f st = st\<lparr>heap := (heap st)(r := f (heap st r))\<rparr>"

text \<open>The builder mutators; each returns the receiver, which the model leaves implicit.\<close>

definition Route_NoMiddlewares :: "addr \<Rightarrow> 'd Prog \<Rightarrow> 'd Prog" where
  "Route_NoMiddlewares r = updRoute r (\<lambda>x. x\<lparr>mdwares := []\<rparr>)"

definition Route_Name :: "addr \<Rightarrow> string \<Rightarrow> 'd Prog \<Rightarrow> 'd Prog" where
  "Route_Name r n = updRoute r (\<lambda>x. x\<lparr>name := n\<rparr>)"

definition Route_Host :: "addr \<Rightarrow> string \<Rightarrow> 'd Prog \<Rightarrow> 'd Prog" where
  "Route_Host r h = updRoute r (\<lambda>x. x\<lparr>host := h\<rparr>)"

definition Route_Use :: "addr \<Rightarrow> Middleware list \<Rightarrow> 'd Prog \<Rightarrow> 'd Prog" where
  "Route_Use r ms = updRoute r (\<lambda>x. x\<lparr>mdwares := mdwares x @ ms\<rparr>)"

text \<open>
  \<^verbatim>\<open>http.CanonicalHeaderKey\<close> belongs to the standard library and is the parameter
  \<open>canon\<close>.
\<close>

definition Route_HasHeader ::
  "(string \<Rightarrow> string) \<Rightarrow> addr \<Rightarrow> string \<Rightarrow> string list \<Rightarrow> 'd Prog \<Rightarrow> 'd Prog" where
  "Route_HasHeader canon r headerK headerV =
     updRoute r (\<lambda>x. x\<lparr>headers := headers x @ [\<lparr>Key = canon headerK, Values = headerV\<rparr>]\<rparr>)"

text \<open>What a handler sees of the registration state when a request arrives.\<close>

definition worldOf :: "(string \<Rightarrow> string + OsFile) \<Rightarrow> 'd Prog \<Rightarrow> World" where
  "worldOf fs st = \<lparr>routeHeaders = (\<lambda>r. headers (heap st r)), files = fs\<rparr>"

subsection \<open>The header-check middleware\<close>

text \<open>The inner loop \<^verbatim>\<open>for _, v := range kv.Values { if v == value { ... } }\<close>.\<close>

fun anyValueIs :: "string list \<Rightarrow> string \<Rightarrow> bool" where
  "anyValueIs [] val = False"
| "anyValueIs (v # vs) val = (if v = val then True else anyValueIs vs val)"

text \<open>The outer loop \<^verbatim>\<open>for _, kv := range r.headers\<close> of the closure.\<close>

fun checkHeaders :: "kvalues list \<Rightarrow> Handler \<Rightarrow> Handler" where
  "checkHeaders [] next w ctx = next w ctx"
| "checkHeaders (kv # kvs) next w ctx =
     (let val = reqHeader ctx (Key kv) in
      if length (Values kv) = 0 then
        (if val = [] then
           (Some (ErrBadRequest_NewError (''missing the header '' @ [CHR 0x27] @ Key kv @ [CHR 0x27])), ctx)
         else checkHeaders kvs next w ctx)
      else
        (if anyValueIs (Values kv) val then next w ctx
         else (Some (ErrBadRequest_NewError
                 (''invalid header '' @ [CHR 0x27] @ Key kv @ '': '' @ val @ [CHR 0x27])), ctx)))"

text \<open>
  \<^verbatim>\<open>buildHeaderMiddleware\<close>: \<^verbatim>\<open>nil\<close> when the route has no predicate now; otherwise a
  closure over the route pointer, which ranges over \<^verbatim>\<open>r.headers\<close> as it is when the
  request arrives.
\<close>

definition buildHeaderMiddleware :: "addr \<Rightarrow> Route \<Rightarrow> Middleware option" where
  "buildHeaderMiddleware r x =
     (if length (headers x) = 0 then None
      else Some (\<lambda>next w ctx. checkHeaders (routeHeaders w r) next w ctx))"

subsection \<open>Registration\<close>

text \<open>The loop \<^verbatim>\<open>for i := middlewaresLen - 1; i >= 0; i-- { handler = middlewares[i](handler) }\<close>.\<close>

function wrapFrom :: "Middleware list \<Rightarrow> int \<Rightarrow> Handler \<Rightarrow> Handler" where
  "wrapFrom ms i h = (if i \<ge> 0 then wrapFrom ms (i - 1) ((ms ! nat i) h) else h)"
  by pat_completeness auto
termination
  by (relation "measure (\<lambda>(ms, i, h). nat (i + 1))") auto

declare wrapFrom.simps [simp del]

text \<open>The loop \<^verbatim>\<open>for _, method := range methods { r.ship.addRoute(...) }\<close>.\<close>

fun registerAll ::
  "('d, 'x) registrar \<Rightarrow> string \<Rightarrow> string \<Rightarrow> string \<Rightarrow> Handler \<Rightarrow> string list \<Rightarrow>
     'd Prog \<Rightarrow> 'x panic option \<times> 'd Prog" where
  "registerAll reg n h p handler [] st = (None, st)"
| "registerAll reg n h p handler (m # ms) st =
     (case reg n h p m handler (ship st) of
        (Some x, s') \<Rightarrow> (Some (ShipPanic x), st\<lparr>ship := s'\<rparr>)
      | (None, s') \<Rightarrow> registerAll reg n h p handler ms (st\<lparr>ship := s'\<rparr>))"

text \<open>The middlewares that \<^verbatim>\<open>addRoute\<close> composes: the route's, then the header check.\<close>

definition composed :: "addr \<Rightarrow> Route \<Rightarrow> Middleware list" where
  "composed r x =
     (case buildHeaderMiddleware r x of
        None \<Rightarrow> mdwares x
      | Some m \<Rightarrow> mdwares x @ [m])"

text \<open>
  \<^verbatim>\<open>Route.addRoute\<close>. A nil handler is \<open>None\<close>. A panic leaves the state as it is at
  that moment.
\<close>

definition Route_addRoute ::
  "('d, 'x) registrar \<Rightarrow> addr \<Rightarrow> string \<Rightarrow> string \<Rightarrow> string \<Rightarrow> Handler option \<Rightarrow>
     string list \<Rightarrow> 'd Prog \<Rightarrow> 'x panic option \<times> 'd Prog" where
  "Route_addRoute reg r n h p handler methods st =
     (case handler of
        None \<Rightarrow> (Some HandlerNil, st)
      | Some fn \<Rightarrow>
          if length methods = 0 then (Some NoMethods, st)
          else if length p = 0 \<or> p ! 0 \<noteq> CHR ''/'' then (Some (PathNoSlash p), st)
          else if strings_Index p ''//'' \<noteq> - 1
            then (Some (PathDoubleSlash p (strings_Index p ''//'')), st)
          else
            let middlewares = composed r (heap st r);
                middlewaresLen = int (length middlewares)
            in if middlewaresLen > MiddlewareMaxNum (ship st)
               then (Some (TooManyMiddlewares middlewaresLen (MiddlewareMaxNum (ship st))), st)
               else registerAll reg n h p
                      (wrapFrom middlewares (middlewaresLen - 1) fn) methods st)"

text \<open>\<^verbatim>\<open>Route.Method\<close> and the shorthands for the verbs.\<close>

definition Route_Method ::
  "('d, 'x) registrar \<Rightarrow> addr \<Rightarrow> Handler option \<Rightarrow> string list \<Rightarrow> 'd Prog \<Rightarrow>
     'x panic option \<times> 'd Prog" where
  "Route_Method reg r handler methods st =
     Route_addRoute reg r (name (heap st r)) (host (heap st r)) (path (heap st r)) handler methods st"

definition AllMethods :: "string list" where
  "AllMethods = [''CONNECT'', ''HEAD'', ''OPTIONS'', ''TRACE'', ''GET'', ''POST'', ''PUT'',
     ''DELETE'', ''PATCH'']"

definition Route_Any ::
  "('d, 'x) registrar \<Rightarrow> addr \<Rightarrow> Handler option \<Rightarrow> 'd Prog \<Rightarrow> 'x panic option \<times> 'd Prog" where
  "Route_Any reg r handler = Route_Method reg r handler AllMethods"
definition Route_CONNECT ::
  "('d, 'x) registrar \<Rightarrow> addr \<Rightarrow> Handler option \<Rightarrow> 'd Prog \<Rightarrow> 'x panic option \<times> 'd Prog" where
  "Route_CONNECT reg r handler = Route_Method reg r handler [''CONNECT'']"
definition Route_OPTIONS ::
  "('d, 'x) registrar \<Rightarrow> addr \<Rightarrow> Handler option \<Rightarrow> 'd Prog \<Rightarrow> 'x panic option \<times> 'd Prog" where
  "Route_OPTIONS reg r handler = Route_Method reg r handler [''OPTIONS'']"
definition Route_HEAD ::
  "('d, 'x) registrar \<Rightarrow> addr \<Rightarrow> Handler option \<Rightarrow> 'd Prog \<Rightarrow> 'x panic option \<times> 'd Prog" where
  "Route_HEAD reg r handler = Route_Method reg r handler [''HEAD'']"
definition Route_PATCH ::
  "('d, 'x) registrar \<Rightarrow> addr \<Rightarrow> Handler option \<Rightarrow> 'd Prog \<Rightarrow> 'x panic option \<times> 'd Prog" where
  "Route_PATCH reg r handler = Route_Method reg r handler [''PATCH'']"
definition Route_TRACE ::
  "('d, 'x) registrar \<Rightarrow> addr \<Rightarrow> Handler option \<Rightarrow> 'd Prog \<Rightarrow> 'x panic option \<times> 'd Prog" where
  "Route_TRACE reg r handler = Route_Method reg r handler [''TRACE'']"
definition Route_GET ::
  "('d, 'x) registrar \<Rightarrow> addr \<Rightarrow> Handler option \<Rightarrow> 'd Prog \<Rightarrow> 'x panic option \<times> 'd Prog" where
  "Route_GET reg r handler = Route_Method reg r handler [''GET'']"
definition Route_PUT ::
  "('d, 'x) registrar \<Rightarrow> addr \<Rightarrow> Handler option \<Rightarrow> 'd Prog \<Rightarrow> 'x panic option \<times> 'd Prog" where
  "Route_PUT reg r handler = Route_Method reg r handler [''PUT'']"
definition Route_POST ::
  "('d, 'x) registrar \<Rightarrow> addr \<Rightarrow> Handler option \<Rightarrow> 'd Prog \<Rightarrow> 'x panic option \<times> 'd Prog" where
  "Route_POST reg r handler = Route_Method reg r handler [''POST'']"
definition Route_DELETE ::
  "('d, 'x) registrar \<Rightarrow> addr \<Rightarrow> Handler option \<Rightarrow> 'd Prog \<Rightarrow> 'x panic option \<times> 'd Prog" where
  "Route_DELETE reg r handler = Route_Method reg r handler [''DELETE'']"

text \<open>
  \<^verbatim>\<open>Route.Redirect\<close>: \<^verbatim>\<open>GET\<close> unless a non-empty first method is given.
  \<^verbatim>\<open>Context.Redirect\<close> is not under src/ and is the parameter \<open>ctxRedirect\<close>.
\<close>

definition Route_Redirect ::
  "('d, 'x) registrar \<Rightarrow> (int \<Rightarrow> string \<Rightarrow> Handler) \<Rightarrow> addr \<Rightarrow> int \<Rightarrow> string \<Rightarrow> string list \<Rightarrow>
     'd Prog \<Rightarrow> 'x panic option \<times> 'd Prog" where
  "Route_Redirect reg ctxRedirect r code toURL method st =
     (let rmethod = (if length method > 0 \<and> method ! 0 \<noteq> [] then method ! 0 else ''GET'')
      in Route_Method reg r (Some (\<lambda>w ctx. ctxRedirect code toURL w ctx)) [rmethod] st)"

text \<open>
  \<^verbatim>\<open>Route.Map\<close>: the entries of the Go map in the order in which the runtime happens to
  iterate over them; a panic ends the loop.
\<close>

fun Route_Map ::
  "('d, 'x) registrar \<Rightarrow> addr \<Rightarrow> (string \<times> Handler option) list \<Rightarrow> 'd Prog \<Rightarrow>
     'x panic option \<times> 'd Prog" where
  "Route_Map reg r [] st = (None, st)"
| "Route_Map reg r ((method, handler) # rest) st =
     (case Route_Method reg r handler [method] st of
        (Some e, st') \<Rightarrow> (Some e, st')
      | (None, st') \<Rightarrow> Route_Map reg r rest st')"

text \<open>
  \<^verbatim>\<open>newRoute\<close> and \<^verbatim>\<open>Route.New\<close> build route objects; the caller stores them in the
  heap.
\<close>

definition newRoute :: "string \<Rightarrow> string \<Rightarrow> string \<Rightarrow> Middleware list \<Rightarrow> unit panic + Route" where
  "newRoute pre h p ms =
     (if p = [] then Inl PathEmpty
      else if p ! 0 \<noteq> CHR ''/'' then Inl (PathNoSlash p)
      else Inr \<lparr>host = h, path = strings_TrimSuffix pre ''/'' @ p, name = [],
                mdwares = ms, headers = []\<rparr>)"

definition Route_New :: "Route \<Rightarrow> Route" where
  "Route_New x = \<lparr>host = host x, path = path x, name = name x,
                  mdwares = mdwares x, headers = headers x\<rparr>"

text \<open>\<^verbatim>\<open>type RouteInfo struct\<close>, without its \<^verbatim>\<open>Router\<close> field.\<close>

record RouteInfo =
  Name :: string
  Host :: string
  Path :: string
  Method :: string
  Handler :: Handler

text \<open>
  Modelled from the spec: \<^verbatim>\<open>Ship.addRoute\<close> is not under src/; the spec says that a
  method-selection call registers the resulting handler into the Dispatcher for every
  requested method. This dispatcher only records what it is given, in order. The theorems
  on registration hold for every registrar; this one shows what was registered.
\<close>

definition recordRoute :: "(RouteInfo list, 'x) registrar" where
  "recordRoute n h p m handler s =
     (None, s\<lparr>table := table s @ [\<lparr>Name = n, Host = h, Path = p, Method = m, Handler = handler\<rparr>]\<rparr>)"

subsection \<open>Static files\<close>

text \<open>\<^verbatim>\<open>fmt.Sprintf("%x", bytes)\<close> and \<^verbatim>\<open>fmt.Sprintf("%d", n)\<close>.\<close>

definition hexDigit :: "nat \<Rightarrow> char" where
  "hexDigit n = ''0123456789abcdef'' ! n"

definition fmt_x :: "string \<Rightarrow> string" where
  "fmt_x bs = concat (map (\<lambda>c. [hexDigit ((of_char c :: nat) div 16),
                                   hexDigit ((of_char c :: nat) mod 16)]) bs)"

function natDigits :: "nat \<Rightarrow> string" where
  "natDigits n = (if n < 10 then [hexDigit n] else natDigits (n div 10) @ [hexDigit (n mod 10)])"
  by pat_completeness auto
termination
  by (relation "measure (\<lambda>n. n)") auto

declare natDigits.simps [simp del]

definition fmt_d :: "int \<Rightarrow> string" where
  "fmt_d i = (if i < 0 then CHR ''-'' # natDigits (nat (- i)) else natDigits (nat i))"

text \<open>
  Modelled from the spec: \<^verbatim>\<open>Context.SetHeader\<close> and \<^verbatim>\<open>Context.NoContent\<close> are not under
  src/. Setting a response header replaces the values it had; \<^verbatim>\<open>NoContent\<close> answers with
  a status and writes no body. The header names are the constants \<^verbatim>\<open>HeaderEtag\<close> and
  \<^verbatim>\<open>HeaderContentLength\<close>, which the spec calls \<^verbatim>\<open>ETag\<close> and \<^verbatim>\<open>Content-Length\<close>.
\<close>

definition HeaderEtag :: string where "HeaderEtag = ''ETag''"
definition HeaderContentLength :: string where "HeaderContentLength = ''Content-Length''"

definition ctx_SetHeader :: "string \<Rightarrow> string \<Rightarrow> Context \<Rightarrow> Context" where
  "ctx_SetHeader k v ctx =
     ctx\<lparr>respHeader := filter (\<lambda>kv. fst kv \<noteq> k) (respHeader ctx) @ [(k, v)]\<rparr>"

definition ctx_NoContent :: "int \<Rightarrow> Context \<Rightarrow> HTTPError option \<times> Context" where
  "ctx_NoContent code ctx = (None, ctx\<lparr>respStatus := code\<rparr>)"

text \<open>
  Modelled from the spec: \<^verbatim>\<open>NewHTTPError(code).NewError(err)\<close> is not under src/; it is
  the failure classified by the status code that wraps the error.
\<close>

definition NewHTTPError_NewError :: "int \<Rightarrow> string \<Rightarrow> HTTPError" where
  "NewHTTPError_NewError code msg = HTTPError code msg"

text \<open>
  \<^verbatim>\<open>Route.serveFileMetadata\<close>. The digest \<^verbatim>\<open>crypto/md5\<close> is the parameter \<open>md5\<close>, the
  configured not-found handler \<^verbatim>\<open>ctx.NotFoundHandler()\<close> the parameter \<open>notFound\<close>.
\<close>

definition serveFileMetadata :: "(string \<Rightarrow> string) \<Rightarrow> Handler \<Rightarrow> string \<Rightarrow> Handler" where
  "serveFileMetadata md5 notFound filename w ctx =
     (case files w filename of
        Inl err \<Rightarrow> (Some (NewHTTPError_NewError StatusInternalServerError err), ctx)
      | Inr f \<Rightarrow>
          (case Stat f of
             Inl err \<Rightarrow> (Some (NewHTTPError_NewError StatusInternalServerError err), ctx)
           | Inr fi \<Rightarrow>
               if IsDir fi then notFound w ctx
               else
                 (case ReadAll f of
                    Inl err \<Rightarrow> (Some (NewHTTPError_NewError StatusInternalServerError err), ctx)
                  | Inr bytes \<Rightarrow>
                      ctx_NoContent StatusOK
                        (ctx_SetHeader HeaderContentLength (fmt_d (Size fi))
                          (ctx_SetHeader HeaderEtag (fmt_x (md5 bytes)) ctx)))))"

text \<open>
  \<^verbatim>\<open>Route.StaticFile\<close>. \<^verbatim>\<open>Context.File\<close> is not under src/ and is the parameter
  \<open>ctxFile\<close>.
\<close>

definition Route_StaticFile ::
  "('d, 'x) registrar \<Rightarrow> (string \<Rightarrow> string) \<Rightarrow> Handler \<Rightarrow> (string \<Rightarrow> Handler) \<Rightarrow> addr \<Rightarrow> string \<Rightarrow>
     'd Prog \<Rightarrow> 'x panic option \<times> 'd Prog" where
  "Route_StaticFile reg md5 notFound ctxFile r filePath st =
     (if strings_Contains (path (heap st r)) '':'' \<or> strings_Contains (path (heap st r)) ''*''
      then (Some URLParamsInStatic, st)
      else
        (case Route_addRoute reg r [] (host (heap st r)) (path (heap st r))
                (Some (\<lambda>w ctx. ctxFile filePath w ctx)) [''GET''] st of
           (Some e, st') \<Rightarrow> (Some e, st')
         | (None, st') \<Rightarrow>
             Route_addRoute reg r [] (host (heap st' r)) (path (heap st' r))
               (Some (\<lambda>w ctx. serveFileMetadata md5 notFound filePath w ctx)) [''HEAD''] st'))"

text \<open>
  \<^verbatim>\<open>http.File\<close> and \<^verbatim>\<open>http.FileSystem\<close>: a file that can also list its children. A
  file system is opened when a request arrives, so it reads the world.
\<close>

record HttpFile =
  osFile :: OsFile
  Readdir :: "int \<Rightarrow> FileInfo list \<times> string option"

type_synonym FileSystem = "World \<Rightarrow> string \<Rightarrow> string + HttpFile"

text \<open>
  \<^verbatim>\<open>notDirFile\<close> embeds the file and overrides \<^verbatim>\<open>Readdir\<close>; \<^verbatim>\<open>onlyFileFS.Open\<close> wraps
  every file it opens. \<^verbatim>\<open>http.Dir\<close> is the parameter \<open>httpDir\<close>.
\<close>

definition notDirFile :: "HttpFile \<Rightarrow> HttpFile" where
  "notDirFile f = f\<lparr>Readdir := (\<lambda>count. ([], None))\<rparr>"

definition onlyFileFS_Open :: "FileSystem \<Rightarrow> FileSystem" where
  "onlyFileFS_Open fs w nm =
     (case fs w nm of
        Inl err \<Rightarrow> Inl err
      | Inr f \<Rightarrow> Inr (notDirFile f))"

definition newOnlyFileFS :: "(string \<Rightarrow> FileSystem) \<Rightarrow> string \<Rightarrow> FileSystem" where
  "newOnlyFileFS httpDir root = onlyFileFS_Open (httpDir root)"

text \<open>
  \<^verbatim>\<open>Route.StaticFS\<close> and \<^verbatim>\<open>Route.Static\<close>. \<^verbatim>\<open>path.Join\<close> and the file server
  \<^verbatim>\<open>http.StripPrefix(r.path, http.FileServer(fs))\<close> are the parameters \<open>pathJoin\<close> and
  \<open>fileServer\<close>.
\<close>

definition Route_StaticFS ::
  "('d, 'x) registrar \<Rightarrow> (string \<Rightarrow> string \<Rightarrow> string) \<Rightarrow>
     (string \<Rightarrow> FileSystem \<Rightarrow> World \<Rightarrow> Context \<Rightarrow> Context) \<Rightarrow> Handler \<Rightarrow> addr \<Rightarrow> FileSystem \<Rightarrow>
     'd Prog \<Rightarrow> 'x panic option \<times> 'd Prog" where
  "Route_StaticFS reg pathJoin fileServer notFound r fs st =
     (if strings_Contains (path (heap st r)) '':'' \<or> strings_Contains (path (heap st r)) ''*''
      then (Some URLParamsInStatic, st)
      else
        let serve = fileServer (path (heap st r)) fs;
            rpath = pathJoin (path (heap st r)) ''/*''
        in Route_addRoute reg r [] (host (heap st r)) rpath
             (Some (\<lambda>w ctx.
                (case fs w (urlParam ctx ''*'') of
                   Inl err \<Rightarrow> notFound w ctx
                 | Inr f \<Rightarrow> (None, serve w ctx))))
             [''HEAD'', ''GET''] st)"

definition Route_Static ::
  "('d, 'x) registrar \<Rightarrow> (string \<Rightarrow> string \<Rightarrow> string) \<Rightarrow>
     (string \<Rightarrow> FileSystem \<Rightarrow> World \<Rightarrow> Context \<Rightarrow> Context) \<Rightarrow> Handler \<Rightarrow> (string \<Rightarrow> FileSystem) \<Rightarrow>
     addr \<Rightarrow> string \<Rightarrow> 'd Prog \<Rightarrow> 'x panic option \<times> 'd Prog" where
  "Route_Static reg pathJoin fileServer notFound httpDir r dirpath st =
     Route_StaticFS reg pathJoin fileServer notFound r (newOnlyFileFS httpDir dirpath) st"

section \<open>Groups\<close>

text \<open>
  \<^verbatim>\<open>type Group struct\<close>; its middleware field is \<open>gmdwares\<close> here, the name
  \<open>mdwares\<close> being the route's.
\<close>

record Group =
  prefix :: string
  gmdwares :: "Middleware list"

definition newGroup :: "string \<Rightarrow> string \<Rightarrow> Middleware list \<Rightarrow> unit panic + Group" where
  "newGroup pprefix pre middlewares =
     (let pre' = strings_TrimSuffix pre ''/''
      in if length pre' = 0 then Inl PrefixEmpty
         else if pre' ! 0 \<noteq> CHR ''/'' then Inl (PrefixNoSlash pre')
         else Inr \<lparr>prefix = pprefix @ pre', gmdwares = middlewares\<rparr>)"

definition Group_Use :: "Middleware list \<Rightarrow> Group \<Rightarrow> Group" where
  "Group_Use middlewares g = g\<lparr>gmdwares := gmdwares g @ middlewares\<rparr>"

definition Group_Group :: "Group \<Rightarrow> string \<Rightarrow> Middleware list \<Rightarrow> unit panic + Group" where
  "Group_Group g pre middlewares = newGroup (prefix g) pre (gmdwares g @ middlewares)"

definition Group_GroupNone :: "Group \<Rightarrow> string \<Rightarrow> Middleware list \<Rightarrow> unit panic + Group" where
  "Group_GroupNone g pre middlewares = newGroup (prefix g) pre middlewares"

text \<open>A chain of nested \<^verbatim>\<open>Group\<close> calls, outermost first.\<close>

fun nested :: "Group \<Rightarrow> (string \<times> Middleware list) list \<Rightarrow> unit panic + Group" where
  "nested g [] = Inr g"
| "nested g ((pre, ms) # rest) =
     (case Group_Group g pre ms of
        Inl e \<Rightarrow> Inl e
      | Inr g' \<Rightarrow> nested g' rest)"

section \<open>The runner\<close>

text \<open>
  Modelled from the spec: \<^verbatim>\<open>OnceRunner\<close> (\<^verbatim>\<open>NewOnceRunner\<close>, \<^verbatim>\<open>Run\<close>) is not under
  src/. The spec's one-shot hook is a function guaranteed to execute at most once despite
  several trigger attempts: a flag and the task, which runs only while the flag is down.
  A shutdown function is a \<^verbatim>\<open>func()\<close>, a closure: what it does may depend on what it
  finds when it runs. It is given whether the channel \<^verbatim>\<open>done\<close> is closed at that moment
  (what a receive from the channel, or a \<^verbatim>\<open>Wait\<close> in another goroutine, would observe)
  and the world outside the runner, of type \<open>'w\<close>, which it changes.
\<close>

type_synonym 'w shutdownFunc = "bool \<Rightarrow> 'w \<Rightarrow> 'w"

record 'w OnceRunner =
  ran :: bool
  task :: "'w shutdownFunc"

definition NewOnceRunner :: "'w shutdownFunc \<Rightarrow> 'w OnceRunner" where
  "NewOnceRunner f = \<lparr>ran = False, task = f\<rparr>"

definition OnceRunner_Run :: "'w OnceRunner \<Rightarrow> bool \<Rightarrow> 'w \<Rightarrow> 'w OnceRunner \<times> 'w" where
  "OnceRunner_Run f closed w =
     (if ran f then (f, w) else (f\<lparr>ran := True\<rparr>, task f closed w))"

text \<open>
  \<^verbatim>\<open>type Runner struct\<close>: the server (\<open>None\<close> is \<^verbatim>\<open>nil\<close>; the server itself belongs to
  \<^verbatim>\<open>net/http\<close> and has the opaque type \<open>'s\<close>), the hooks (pointers, so \<open>None\<close> is a
  \<^verbatim>\<open>nil\<close> entry), the flags of the two one-shot runners \<^verbatim>\<open>stop\<close> (whose task is
  \<^verbatim>\<open>runStopfs\<close>) and \<^verbatim>\<open>shut\<close> (whose task is \<^verbatim>\<open>runShutdown\<close>), whether the channel
  \<^verbatim>\<open>done\<close> has been closed, and the world the hooks act on.
\<close>

record ('s, 'w) Runner =
  Server :: "'s option"
  stopfs :: "'w OnceRunner option list"
  stopRan :: bool
  shutRan :: bool
  doneClosed :: bool
  world :: 'w

definition NewRunner :: "'w \<Rightarrow> ('s, 'w) Runner" where
  "NewRunner w = \<lparr>Server = None, stopfs = [], stopRan = False, shutRan = False,
                  doneClosed = False, world = w\<rparr>"

fun RegisterOnShutdown :: "'w shutdownFunc list \<Rightarrow> ('s, 'w) Runner \<Rightarrow> ('s, 'w) Runner" where
  "RegisterOnShutdown [] r = r"
| "RegisterOnShutdown (f # fs) r =
     RegisterOnShutdown fs (r\<lparr>stopfs := stopfs r @ [Some (NewOnceRunner f)]\<rparr>)"

text \<open>
  The loop of \<^verbatim>\<open>runStopfs\<close>:
  \<^verbatim>\<open>for _len := len(r.stopfs) - 1; _len >= 0; _len-- { if f := r.stopfs[_len]; f != nil { f.Run() } }\<close>.
  A hook that runs finds the channel \<^verbatim>\<open>done\<close> as the runner has it at that moment.
\<close>

function runHooksFrom :: "int \<Rightarrow> ('s, 'w) Runner \<Rightarrow> ('s, 'w) Runner" where
  "runHooksFrom i r =
     (if i \<ge> 0 then
        (case stopfs r ! nat i of
           None \<Rightarrow> runHooksFrom (i - 1) r
         | Some f \<Rightarrow>
             (case OnceRunner_Run f (doneClosed r) (world r) of
                (f', w') \<Rightarrow>
                  runHooksFrom (i - 1) (r\<lparr>stopfs := (stopfs r)[nat i := Some f'], world := w'\<rparr>)))
      else r)"
  by pat_completeness auto
termination
  by (relation "measure (\<lambda>(i, r). nat (i + 1))") auto

declare runHooksFrom.simps [simp del]

text \<open>
  \<^verbatim>\<open>runStopfs\<close>: the deferred \<^verbatim>\<open>close(r.done)\<close> runs when the loop has ended. Closing a
  closed channel panics.
\<close>

definition runStopfs :: "('s, 'w) Runner \<Rightarrow> string option \<times> ('s, 'w) Runner" where
  "runStopfs r =
     (let r' = runHooksFrom (int (length (stopfs r)) - 1) r
      in if doneClosed r' then (Some ''close of closed channel'', r')
         else (None, r'\<lparr>doneClosed := True\<rparr>))"

text \<open>\<^verbatim>\<open>r.stop.Run()\<close>, the one-shot runner of \<^verbatim>\<open>runStopfs\<close>.\<close>

definition stop_Run :: "('s, 'w) Runner \<Rightarrow> string option \<times> ('s, 'w) Runner" where
  "stop_Run r =
     (if stopRan r then (None, r)
      else (case runStopfs r of (p, r') \<Rightarrow> (p, r'\<lparr>stopRan := True\<rparr>)))"

text \<open>
  \<^verbatim>\<open>Runner.Shutdown\<close>: the error it returns and the runner afterwards.
  \<^verbatim>\<open>http.Server.Shutdown\<close> is the parameter \<open>serverShutdown\<close>.
\<close>

datatype shutdownResult = Returned "string option" | Panicked string

definition Shutdown ::
  "('s \<Rightarrow> string option \<times> 's) \<Rightarrow> ('s, 'w) Runner \<Rightarrow> shutdownResult \<times> ('s, 'w) Runner" where
  "Shutdown serverShutdown r =
     (case Server r of
        None \<Rightarrow> (Returned (Some ''the server has not been started''), r)
      | Some s \<Rightarrow>
          (case serverShutdown s of
             (err, s') \<Rightarrow>
               (case stop_Run (r\<lparr>Server := Some s'\<rparr>) of
                  (Some p, r') \<Rightarrow> (Panicked p, r')
                | (None, r') \<Rightarrow> (Returned err, r'))))"

text \<open>
  \<^verbatim>\<open>Runner.Stop\<close> is \<^verbatim>\<open>r.shut.Run()\<close>, whose task \<^verbatim>\<open>runShutdown\<close> calls \<^verbatim>\<open>Shutdown\<close>
  and drops what it returns.
\<close>

definition runShutdown ::
  "('s \<Rightarrow> string option \<times> 's) \<Rightarrow> ('s, 'w) Runner \<Rightarrow> ('s, 'w) Runner" where
  "runShutdown serverShutdown r = snd (Shutdown serverShutdown r)"

definition Stop ::
  "('s \<Rightarrow> string option \<times> 's) \<Rightarrow> ('s, 'w) Runner \<Rightarrow> ('s, 'w) Runner" where
  "Stop serverShutdown r =
     (if shutRan r then r else (runShutdown serverShutdown r)\<lparr>shutRan := True\<rparr>)"

text \<open>\<^verbatim>\<open>Runner.Wait\<close> returns once the channel is closed, and blocks until then.\<close>

definition Wait :: "('s, 'w) Runner \<Rightarrow> unit option" where
  "Wait r = (if doneClosed r then Some () else None)"

text \<open>The tasks of the hooks that have not run yet, in registration order.\<close>

fun pending :: "'w OnceRunner option list \<Rightarrow> 'w shutdownFunc list" where
  "pending [] = []"
| "pending (None # fs) = pending fs"
| "pending (Some f # fs) = (if ran f then pending fs else task f # pending fs)"

section \<open>Observing the order of execution\<close>

text \<open>
  Modelled from the spec: \<^verbatim>\<open>Context.AddHeader\<close> is not under src/; it adds a value to a
  response header. A middleware that marks the response when it is entered and when it is
  left, and a handler that marks it once, make the order of a chain visible.
\<close>

definition ctx_AddHeader :: "string \<Rightarrow> string \<Rightarrow> Context \<Rightarrow> Context" where
  "ctx_AddHeader k v ctx = ctx\<lparr>respHeader := respHeader ctx @ [(k, v)]\<rparr>"

definition traceMiddleware :: "string \<Rightarrow> Middleware" where
  "traceMiddleware a next w ctx =
     (case next w (ctx_AddHeader ''Trace'' (a @ ''-enter'') ctx) of
        (e, ctx') \<Rightarrow> (e, ctx_AddHeader ''Trace'' (a @ ''-exit'') ctx'))"

definition traceHandler :: "string \<Rightarrow> Handler" where
  "traceHandler a w ctx = (None, ctx_AddHeader ''Trace'' a ctx)"

section \<open>Concrete inputs\<close>

text \<open>
  A route \<^verbatim>\<open>/a\<close> with the marking middlewares \<^verbatim>\<open>A\<close> and \<^verbatim>\<open>B\<close> on a dispatcher that
  accepts up to 128 middlewares, and an empty request.
\<close>

definition prog0 :: "RouteInfo list Prog" where
  "prog0 = \<lparr>heap = (\<lambda>r. \<lparr>host = [], path = ''/a'', name = [],
               mdwares = [traceMiddleware ''A'', traceMiddleware ''B''], headers = []\<rparr>),
            ship = \<lparr>MiddlewareMaxNum = 128, table = []\<rparr>\<rparr>"

definition ctx0 :: Context where
  "ctx0 = \<lparr>reqHeader = (\<lambda>k. []), urlParam = (\<lambda>k. []), respHeader = [], respStatus = 0,
           respBody = []\<rparr>"

text \<open>
  A route whose path has a named parameter; stand-ins for the digest, for the not-found
  handler and for \<^verbatim>\<open>Context.File\<close>, which mark the response.
\<close>

definition progParam :: "RouteInfo list Prog" where
  "progParam = \<lparr>heap = (\<lambda>r. \<lparr>host = [], path = ''/a:b'', name = [], mdwares = [],
                   headers = []\<rparr>),
                ship = \<lparr>MiddlewareMaxNum = 128, table = []\<rparr>\<rparr>"

definition digest0 :: "string \<Rightarrow> string" where
  "digest0 bs = [CHR 0x00, CHR 0x1f, CHR 0xa0, CHR 0xff]"

definition notFound0 :: Handler where
  "notFound0 = traceHandler ''not found''"

definition ctxFile0 :: "string \<Rightarrow> Handler" where
  "ctxFile0 f = traceHandler f"

text \<open>
  Stand-ins for \<^verbatim>\<open>path.Join\<close>, the file server and \<^verbatim>\<open>http.Dir\<close>: every name but
  \<^verbatim>\<open>missing\<close> opens a directory that lists two children.
\<close>

definition pathJoin0 :: "string \<Rightarrow> string \<Rightarrow> string" where
  "pathJoin0 a b = a @ b"

definition fileServer0 :: "string \<Rightarrow> FileSystem \<Rightarrow> World \<Rightarrow> Context \<Rightarrow> Context" where
  "fileServer0 pre fs w ctx = ctx"

definition listingFile :: HttpFile where
  "listingFile = \<lparr>osFile = \<lparr>Stat = Inr \<lparr>IsDir = True, Size = 4096\<rparr>,
                             ReadAll = Inl ''is a directory''\<rparr>,
                  Readdir = (\<lambda>count. ([\<lparr>IsDir = False, Size = 3\<rparr>, \<lparr>IsDir = False, Size = 5\<rparr>],
                                      None))\<rparr>"

definition httpDir0 :: "string \<Rightarrow> FileSystem" where
  "httpDir0 root w nm =
     (if nm = ''missing'' then Inl ''no such file or directory'' else Inr listingFile)"

text \<open>
  A file system with a regular file of five bytes, a directory, a file that cannot be
  inspected and one that cannot be read.
\<close>

definition files0 :: "string \<Rightarrow> string + OsFile" where
  "files0 fn =
     (if fn = ''f.txt'' then Inr \<lparr>Stat = Inr \<lparr>IsDir = False, Size = 5\<rparr>, ReadAll = Inr ''hello''\<rparr>
      else if fn = ''dir'' then Inr \<lparr>Stat = Inr \<lparr>IsDir = True, Size = 4096\<rparr>,
                                     ReadAll = Inl ''is a directory''\<rparr>
      else if fn = ''nostat'' then Inr \<lparr>Stat = Inl ''stat failed'', ReadAll = Inr []\<rparr>
      else if fn = ''noread'' then Inr \<lparr>Stat = Inr \<lparr>IsDir = False, Size = 7\<rparr>,
                                        ReadAll = Inl ''input/output error''\<rparr>
      else Inl ''no such file or directory'')"

text \<open>
  A route \<^verbatim>\<open>/a\<close> without middlewares or predicates, and the life of a builder:
  \<^verbatim>\<open>HasHeader("X-A")\<close>, then \<^verbatim>\<open>GET(h)\<close>, then \<^verbatim>\<open>HasHeader("X-B")\<close>. The header keys are
  canonical already, so \<^verbatim>\<open>http.CanonicalHeaderKey\<close> leaves them alone.
\<close>

definition progPlain :: "RouteInfo list Prog" where
  "progPlain = \<lparr>heap = (\<lambda>r. \<lparr>host = [], path = ''/a'', name = [], mdwares = [],
                   headers = []\<rparr>),
                ship = \<lparr>MiddlewareMaxNum = 128, table = []\<rparr>\<rparr>"

definition canon0 :: "string \<Rightarrow> string" where
  "canon0 k = k"

definition afterGET :: "RouteInfo list Prog" where
  "afterGET = snd (Route_GET (recordRoute :: (RouteInfo list, unit) registrar) 0
                     (Some (traceHandler ''H'')) (Route_HasHeader canon0 0 ''X-A'' [] progPlain))"

definition afterSecondHasHeader :: "RouteInfo list Prog" where
  "afterSecondHasHeader = Route_HasHeader canon0 0 ''X-B'' [] afterGET"

text \<open>A root group \<^verbatim>\<open>/api\<close> with the marking middleware \<^verbatim>\<open>A\<close>.\<close>

definition groupApi :: Group where
  "groupApi = \<lparr>prefix = ''/api'', gmdwares = [traceMiddleware ''A'']\<rparr>"

text \<open>A hook whose flag is up, and the ways to trigger the stop of a runner, one after another.\<close>

definition markRan :: "'w OnceRunner option \<Rightarrow> 'w OnceRunner option" where
  "markRan = map_option (\<lambda>f. f\<lparr>ran := True\<rparr>)"

datatype trigger = ByStop | ByShutdown

fun fire ::
  "('s \<Rightarrow> string option \<times> 's) \<Rightarrow> trigger \<Rightarrow> ('s, 'w) Runner \<Rightarrow> ('s, 'w) Runner" where
  "fire serverShutdown ByStop r = Stop serverShutdown r"
| "fire serverShutdown ByShutdown r = snd (Shutdown serverShutdown r)"

text \<open>
  A world that logs which hooks ran and whether each found the channel \<^verbatim>\<open>done\<close> closed, a
  server that shuts down without error, and a runner before and after its start.
\<close>

definition hook :: "string \<Rightarrow> (string \<times> bool) list shutdownFunc" where
  "hook a closed w = w @ [(a, closed)]"

definition serverShutdown0 :: "unit \<Rightarrow> string option \<times> unit" where
  "serverShutdown0 s = (None, s)"

definition runnerNew :: "(unit, (string \<times> bool) list) Runner" where
  "runnerNew = NewRunner []"

definition runnerStarted :: "(unit, (string \<times> bool) list) Runner" where
  "runnerStarted = (NewRunner [])\<lparr>Server := Some ()\<rparr>"


definition request :: "(string \<times> string) list \<Rightarrow> Context" where
  "request hs = \<lparr>reqHeader = (\<lambda>k. case map_of hs k of None \<Rightarrow> [] | Some v \<Rightarrow> v),
                 urlParam = (\<lambda>k. []), respHeader = [], respStatus = 0, respBody = []\<rparr>"

definition noFiles :: "string \<Rightarrow> string + OsFile" where
  "noFiles f = Inl ''no such file or directory''"

section \<open>The middleware chain of a registered route\<close>

lemma wrapFrom_take:
  "n \<le> length ms \<Longrightarrow> wrapFrom ms (int n - 1) h = foldr (\<lambda>m g. m g) (take n ms) h"
proof (induction n arbitrary: h)
  case 0
  show ?case by (simp add: wrapFrom.simps)
next
  case (Suc n)
  have "wrapFrom ms (int (Suc n) - 1) h = wrapFrom ms (int n - 1) ((ms ! n) h)"
    by (subst wrapFrom.simps) simp
  also have "\<dots> = foldr (\<lambda>m g. m g) (take n ms) ((ms ! n) h)"
    using Suc by simp
  also have "\<dots> = foldr (\<lambda>m g. m g) (take (Suc n) ms) h"
    using Suc.prems by (simp add: take_Suc_conv_app_nth)
  finally show ?case .
qed

lemma wrapFrom_all:
  "wrapFrom ms (int (length ms) - 1) h = foldr (\<lambda>m g. m g) ms h"
  using wrapFrom_take [of "length ms" ms h] by simp

lemma trace_nesting:
  "foldr (\<lambda>m g. m g) (map traceMiddleware as) (traceHandler b) w ctx =
     (None, ctx\<lparr>respHeader := respHeader ctx
        @ map (\<lambda>a. (''Trace'', a @ ''-enter'')) as
        @ [(''Trace'', b)]
        @ map (\<lambda>a. (''Trace'', a @ ''-exit'')) (rev as)\<rparr>)"
proof (induction as arbitrary: ctx)
  case Nil
  show ?case by (simp add: traceHandler_def ctx_AddHeader_def)
next
  case (Cons a as)
  let ?inner = "foldr (\<lambda>m g. m g) (map traceMiddleware as) (traceHandler b)"
  let ?ctx1 = "ctx_AddHeader ''Trace'' (a @ ''-enter'') ctx"
  have "foldr (\<lambda>m g. m g) (map traceMiddleware (a # as)) (traceHandler b) w ctx =
          traceMiddleware a ?inner w ctx"
    by simp
  also have "\<dots> = (case ?inner w ?ctx1 of
                      (e, ctx') \<Rightarrow> (e, ctx_AddHeader ''Trace'' (a @ ''-exit'') ctx'))"
    by (simp add: traceMiddleware_def)
  also have "\<dots> = (None, ctx_AddHeader ''Trace'' (a @ ''-exit'')
       (?ctx1\<lparr>respHeader := respHeader ?ctx1
          @ map (\<lambda>a. (''Trace'', a @ ''-enter'')) as
          @ [(''Trace'', b)]
          @ map (\<lambda>a. (''Trace'', a @ ''-exit'')) (rev as)\<rparr>))"
    by (simp only: Cons.IH prod.case)
  also have "\<dots> = (None, ctx\<lparr>respHeader := respHeader ctx
        @ map (\<lambda>a. (''Trace'', a @ ''-enter'')) (a # as)
        @ [(''Trace'', b)]
        @ map (\<lambda>a. (''Trace'', a @ ''-exit'')) (rev (a # as))\<rparr>)"
    by (simp add: ctx_AddHeader_def)
  finally show ?case .
qed

lemma addRoute_valid:
  assumes "methods \<noteq> []" and "p \<noteq> []" and "p ! 0 = CHR ''/''"
    and "strings_Index p ''//'' = - 1"
    and "int (length (composed r (heap st r))) \<le> MiddlewareMaxNum (ship st)"
  shows "Route_addRoute reg r n h p (Some f) methods st =
           registerAll reg n h p (foldr (\<lambda>m g. m g) (composed r (heap st r)) f) methods st"
  using assms by (simp add: Route_addRoute_def Let_def wrapFrom_all)

lemma registerAll_recordRoute:
  "registerAll recordRoute n h p f methods st =
     (None, st\<lparr>ship := (ship st)\<lparr>table := table (ship st) @
        map (\<lambda>m. \<lparr>Name = n, Host = h, Path = p, Method = m, Handler = f\<rparr>) methods\<rparr>\<rparr>)"
proof (induction methods arbitrary: st)
  case Nil
  show ?case by simp
next
  case (Cons m methods)
  have one: "recordRoute n h p m f (ship st) =
      (None, (ship st)\<lparr>table := table (ship st) @
         [\<lparr>Name = n, Host = h, Path = p, Method = m, Handler = f\<rparr>]\<rparr>)"
    by (simp add: recordRoute_def)
  show ?case
    by (simp only: registerAll.simps one prod.case option.case Cons.IH) simp
qed

text \<open>
  Claim C1. When \<^verbatim>\<open>Route.addRoute\<close> (which \<^verbatim>\<open>Method\<close> and the verb shorthands call on the
  route's name, host and path) passes its checks, the handler it hands to the dispatcher
  for every method is the nesting \<open>m1 (m2 (\<dots> (mn h)))\<close> of the composed
  middlewares (the route's, followed by the header check when the route has predicates)
  around the handler; with no middleware it is the handler itself. On a request the
  marking middlewares \<open>as\<close> around a marking handler are entered first to last, then the
  handler runs, then they are left last to first.
\<close>

theorem Route_addRoute_nesting:
  assumes "methods \<noteq> []" and "p \<noteq> []" and "p ! 0 = CHR ''/''"
    and "strings_Index p ''//'' = - 1"
    and "int (length (composed r (heap st r))) \<le> MiddlewareMaxNum (ship st)"
  shows "Route_addRoute reg r n h p (Some f) methods st =
           registerAll reg n h p (foldr (\<lambda>m g. m g) (composed r (heap st r)) f) methods st
       \<and> (headers (heap st r) = [] \<longrightarrow> composed r (heap st r) = mdwares (heap st r))
       \<and> (headers (heap st r) \<noteq> [] \<longrightarrow>
            (\<exists>hm. buildHeaderMiddleware r (heap st r) = Some hm
                \<and> composed r (heap st r) = mdwares (heap st r) @ [hm]))
       \<and> (composed r (heap st r) = [] \<longrightarrow>
            Route_addRoute reg r n h p (Some f) methods st = registerAll reg n h p f methods st)
       \<and> Route_Method reg r (Some f) methods st =
           Route_addRoute reg r (name (heap st r)) (host (heap st r)) (path (heap st r))
             (Some f) methods st
       \<and> foldr (\<lambda>m g. m g) (map traceMiddleware as) (traceHandler b) w ctx =
           (None, ctx\<lparr>respHeader := respHeader ctx
              @ map (\<lambda>a. (''Trace'', a @ ''-enter'')) as
              @ [(''Trace'', b)]
              @ map (\<lambda>a. (''Trace'', a @ ''-exit'')) (rev as)\<rparr>)"
proof -
  have a: "Route_addRoute reg r n h p (Some f) methods st =
           registerAll reg n h p (foldr (\<lambda>m g. m g) (composed r (heap st r)) f) methods st"
    using assms by (rule addRoute_valid)
  have b: "headers (heap st r) = [] \<longrightarrow> composed r (heap st r) = mdwares (heap st r)"
    by (simp add: composed_def buildHeaderMiddleware_def)
  have c: "headers (heap st r) \<noteq> [] \<longrightarrow>
            (\<exists>hm. buildHeaderMiddleware r (heap st r) = Some hm
                \<and> composed r (heap st r) = mdwares (heap st r) @ [hm])"
    by (simp add: composed_def buildHeaderMiddleware_def)
  have d: "composed r (heap st r) = [] \<longrightarrow>
            Route_addRoute reg r n h p (Some f) methods st = registerAll reg n h p f methods st"
    using a by simp
  have e: "Route_Method reg r (Some f) methods st =
           Route_addRoute reg r (name (heap st r)) (host (heap st r)) (path (heap st r))
             (Some f) methods st"
    by (simp add: Route_Method_def)
  show ?thesis using a b c d e trace_nesting by blast
qed

lemma Index_a: "strings_Index ''/a'' ''//'' = - 1"
  by (simp add: strings_Index_def strings_HasPrefix_def)

text \<open>
  The route \<^verbatim>\<open>/a\<close> with middlewares \<^verbatim>\<open>A\<close>, \<^verbatim>\<open>B\<close> registers one \<^verbatim>\<open>GET\<close> handler; run
  on the empty request it leaves the marks \<^verbatim>\<open>A-enter, B-enter, H, B-exit, A-exit\<close>.
\<close>

theorem Route_addRoute_nesting_witness:
  "(case table (ship (snd (Route_addRoute (recordRoute :: (RouteInfo list, unit) registrar) 0 [] [] ''/a''
       (Some (traceHandler ''H'')) [''GET''] prog0))) of
      [ri] \<Rightarrow> respHeader (snd (Handler ri (worldOf (\<lambda>f. Inl []) prog0) ctx0)) | _ \<Rightarrow> [])
    = [(''Trace'', ''A-enter''), (''Trace'', ''B-enter''), (''Trace'', ''H''),
       (''Trace'', ''B-exit''), (''Trace'', ''A-exit'')]"
proof -
  let ?w = "worldOf (\<lambda>f. Inl []) prog0"
  let ?h = "traceMiddleware ''A'' (traceMiddleware ''B'' (traceHandler ''H''))"
  have c: "composed 0 (heap prog0 0) = map traceMiddleware [''A'', ''B'']"
    by (simp add: composed_def buildHeaderMiddleware_def prog0_def)
  have l: "int (length (composed 0 (heap prog0 0))) \<le> MiddlewareMaxNum (ship prog0)"
    unfolding c by (simp add: prog0_def)
  have m: "[''GET''] \<noteq> []" and p: "''/a'' \<noteq> []" and s: "''/a'' ! 0 = CHR ''/''"
    by simp_all
  note t = Route_addRoute_nesting [OF m p s Index_a l,
      of "recordRoute :: (RouteInfo list, unit) registrar" "[]" "[]" "traceHandler ''H''"
         "[''A'', ''B'']" "''H''" ?w ctx0]
  have reg: "Route_addRoute (recordRoute :: (RouteInfo list, unit) registrar) 0 [] [] ''/a''
        (Some (traceHandler ''H'')) [''GET''] prog0 =
      registerAll recordRoute [] [] ''/a'' ?h [''GET''] prog0"
    using t unfolding c by simp
  have run: "?h ?w ctx0 =
      (None, ctx0\<lparr>respHeader := [(''Trace'', ''A-enter''), (''Trace'', ''B-enter''),
         (''Trace'', ''H''), (''Trace'', ''B-exit''), (''Trace'', ''A-exit'')]\<rparr>)"
    using t by (simp add: ctx0_def)
  have tb: "table (ship prog0) = []"
    by (simp add: prog0_def)
  show ?thesis
    unfolding reg registerAll_recordRoute
    by (simp add: tb run)
qed

section \<open>The header check\<close>







section \<open>Checks at registration\<close>

lemma indexFrom_range: "0 \<le> i \<Longrightarrow> indexFrom i s sub = - 1 \<or> 0 \<le> indexFrom i s sub"
  by (induction s arbitrary: i) auto

lemma HasPrefix_append: "strings_HasPrefix s sub = (\<exists>post. s = sub @ post)"
proof
  assume "strings_HasPrefix s sub"
  then have "s = sub @ drop (length sub) s"
    by (metis append_take_drop_id strings_HasPrefix_def)
  then show "\<exists>post. s = sub @ post" ..
next
  assume "\<exists>post. s = sub @ post"
  then show "strings_HasPrefix s sub"
    by (auto simp add: strings_HasPrefix_def)
qed

lemma indexFrom_found:
  "0 \<le> i \<Longrightarrow> (indexFrom i s sub \<noteq> - 1) = (\<exists>pre post. s = pre @ sub @ post)"
proof (induction s arbitrary: i)
  case Nil
  then show ?case by auto
next
  case (Cons c cs)
  show ?case
  proof (cases "strings_HasPrefix (c # cs) sub")
    case True
    then obtain post where "c # cs = [] @ sub @ post"
      by (auto simp add: HasPrefix_append)
    then have "\<exists>pre post. c # cs = pre @ sub @ post" by blast
    with True Cons.prems show ?thesis by simp
  next
    case False
    have "(\<exists>pre post. c # cs = pre @ sub @ post) = (\<exists>pre post. cs = pre @ sub @ post)"
    proof
      assume "\<exists>pre post. c # cs = pre @ sub @ post"
      then obtain pre post where e: "c # cs = pre @ sub @ post" by blast
      show "\<exists>pre post. cs = pre @ sub @ post"
      proof (cases pre)
        case Nil
        with e False show ?thesis by (simp add: HasPrefix_append)
      next
        case (Cons a pre')
        with e have "cs = pre' @ sub @ post" by simp
        then show ?thesis by blast
      qed
    next
      assume "\<exists>pre post. cs = pre @ sub @ post"
      then obtain pre post where "cs = pre @ sub @ post" by blast
      then have "c # cs = (c # pre) @ sub @ post" by simp
      then show "\<exists>pre post. c # cs = pre @ sub @ post" by blast
    qed
    with False Cons.IH [of "i + 1"] Cons.prems show ?thesis by simp
  qed
qed

lemma strings_Index_found:
  "(strings_Index s sub \<noteq> - 1) = (\<exists>pre post. s = pre @ sub @ post)"
  by (simp add: strings_Index_def indexFrom_found)

lemma strings_Contains_char: "strings_Contains s [c] = (c \<in> set s)"
proof -
  have "strings_Contains s [c] = (strings_Index s [c] \<noteq> - 1)"
    using indexFrom_range [of 0 s "[c]"]
    by (auto simp add: strings_Contains_def strings_Index_def)
  also have "\<dots> = (\<exists>pre post. s = pre @ [c] @ post)"
    by (rule strings_Index_found)
  also have "\<dots> = (c \<in> set s)"
    by (auto simp add: in_set_conv_decomp)
  finally show ?thesis .
qed

lemma registerAll_panic: "fst (registerAll reg n h p f methods st) = Some e \<Longrightarrow> isShipPanic e"
  by (induction methods arbitrary: st) (auto split: prod.splits option.splits)

lemma StaticFile_params:
  "CHR '':'' \<in> set (path (heap st r)) \<or> CHR ''*'' \<in> set (path (heap st r)) \<Longrightarrow>
     Route_StaticFile reg md5 notFound ctxFile r filePath st = (Some URLParamsInStatic, st)"
  by (simp add: Route_StaticFile_def strings_Contains_char)

lemma StaticFS_params:
  "CHR '':'' \<in> set (path (heap st r)) \<or> CHR ''*'' \<in> set (path (heap st r)) \<Longrightarrow>
     Route_StaticFS reg pathJoin fileServer notFound r fs st = (Some URLParamsInStatic, st)"
  by (simp add: Route_StaticFS_def strings_Contains_char)


lemma registerAll_fold:
  "\<forall>m \<in> set methods. \<forall>s. fst (reg n h p m f s) = None \<Longrightarrow>
     registerAll reg n h p f methods st =
       (None, st\<lparr>ship := fold (\<lambda>m s. snd (reg n h p m f s)) methods (ship st)\<rparr>)"
proof (induction methods arbitrary: st)
  case Nil
  show ?case by simp
next
  case (Cons m methods)
  obtain s' where one: "reg n h p m f (ship st) = (None, s')"
    using Cons.prems by (metis fst_conv list.set_intros(1) surj_pair)
  have rest: "\<forall>m \<in> set methods. \<forall>s. fst (reg n h p m f s) = None"
    using Cons.prems by simp
  show ?case
    by (simp add: one Cons.IH [OF rest])
qed

lemma addRoute_invalid:
  assumes "handler = None \<or> methods = [] \<or> p = [] \<or> p ! 0 \<noteq> CHR ''/''
      \<or> (\<exists>pre post. p = pre @ ''//'' @ post)
      \<or> MiddlewareMaxNum (ship st) < int (length (composed r (heap st r)))"
  shows "\<exists>e. Route_addRoute reg r n h p handler methods st = (Some e, st) \<and> \<not> isShipPanic e"
proof -
  have i: "(\<exists>pre post. p = pre @ ''//'' @ post) = (strings_Index p ''//'' \<noteq> - 1)"
    by (simp add: strings_Index_found)
  show ?thesis
    using assms unfolding i
    by (cases handler) (auto simp add: Route_addRoute_def Let_def)
qed

lemma addRoute_fails_iff:
  "(handler = None \<or> methods = [] \<or> p = [] \<or> p ! 0 \<noteq> CHR ''/''
      \<or> (\<exists>pre post. p = pre @ ''//'' @ post)
      \<or> MiddlewareMaxNum (ship st) < int (length (composed r (heap st r))))
   = (\<exists>e. fst (Route_addRoute reg r n h p handler methods st) = Some e \<and> \<not> isShipPanic e)"
  (is "?bad = ?fails")
proof
  assume ?bad
  then show ?fails
    using addRoute_invalid [of handler methods p st r reg n h] by auto
next
  assume f: ?fails
  show ?bad
  proof (rule ccontr)
    assume nb: "\<not> ?bad"
    then obtain fn where fn: "handler = Some fn" by auto
    have "strings_Index p ''//'' = - 1"
      using nb strings_Index_found [of p "''//''"] by auto
    with nb fn have "Route_addRoute reg r n h p handler methods st =
        registerAll reg n h p (foldr (\<lambda>m g. m g) (composed r (heap st r)) fn) methods st"
      using addRoute_valid [of methods p r st reg n h fn] by auto
    with f registerAll_panic show False by metis
  qed
qed

text \<open>
  Claim C3, amended. \<^verbatim>\<open>Route.addRoute\<close> panics in its own checks, leaving the state
  as it was, exactly when the handler is nil, or no method is given, or the path is empty
  or does not start with a slash, or the path contains a doubled slash, or more
  middlewares are composed than \<^verbatim>\<open>MiddlewareMaxNum\<close> allows. Otherwise it runs the
  dispatcher's registration with the wrapped handler once for every method, in order (a
  fold over the methods when the dispatcher does not panic). \<^verbatim>\<open>Method\<close> is \<^verbatim>\<open>addRoute\<close>
  on the route's name, host and path. \<^verbatim>\<open>StaticFile\<close> and \<^verbatim>\<open>StaticFS\<close> panic in addition,
  before any registration, when the route's path contains \<^verbatim>\<open>:\<close> or \<^verbatim>\<open>*\<close>.
\<close>

theorem Route_addRoute_fails_iff:
  "((handler = None \<or> methods = [] \<or> p = [] \<or> p ! 0 \<noteq> CHR ''/''
       \<or> (\<exists>pre post. p = pre @ ''//'' @ post)
       \<or> MiddlewareMaxNum (ship st) < int (length (composed r (heap st r))))
    = (\<exists>e. fst (Route_addRoute reg r n h p handler methods st) = Some e \<and> \<not> isShipPanic e))
   \<and> ((handler = None \<or> methods = [] \<or> p = [] \<or> p ! 0 \<noteq> CHR ''/''
       \<or> (\<exists>pre post. p = pre @ ''//'' @ post)
       \<or> MiddlewareMaxNum (ship st) < int (length (composed r (heap st r))))
      \<longrightarrow> snd (Route_addRoute reg r n h p handler methods st) = st)
   \<and> (\<not> (methods = [] \<or> p = [] \<or> p ! 0 \<noteq> CHR ''/''
          \<or> (\<exists>pre post. p = pre @ ''//'' @ post)
          \<or> MiddlewareMaxNum (ship st) < int (length (composed r (heap st r))))
      \<longrightarrow> Route_addRoute reg r n h p (Some f) methods st =
            registerAll reg n h p (foldr (\<lambda>m g. m g) (composed r (heap st r)) f) methods st)
   \<and> ((\<forall>m \<in> set methods. \<forall>s. fst (reg n h p m g s) = None)
      \<longrightarrow> registerAll reg n h p g methods st =
            (None, st\<lparr>ship := fold (\<lambda>m s. snd (reg n h p m g s)) methods (ship st)\<rparr>))
   \<and> Route_Method reg r handler methods st =
        Route_addRoute reg r (name (heap st r)) (host (heap st r)) (path (heap st r))
          handler methods st
   \<and> (CHR '':'' \<in> set (path (heap st r)) \<or> CHR ''*'' \<in> set (path (heap st r))
      \<longrightarrow> Route_StaticFile reg md5 notFound ctxFile r filePath st = (Some URLParamsInStatic, st)
        \<and> Route_StaticFS reg pathJoin fileServer notFound r fs st = (Some URLParamsInStatic, st))"
proof -
  let ?bad = "handler = None \<or> methods = [] \<or> p = [] \<or> p ! 0 \<noteq> CHR ''/''
       \<or> (\<exists>pre post. p = pre @ ''//'' @ post)
       \<or> MiddlewareMaxNum (ship st) < int (length (composed r (heap st r)))"
  have c1: "?bad = (\<exists>e. fst (Route_addRoute reg r n h p handler methods st) = Some e
                      \<and> \<not> isShipPanic e)"
    by (rule addRoute_fails_iff)
  have c2: "?bad \<longrightarrow> snd (Route_addRoute reg r n h p handler methods st) = st"
  proof
    assume ?bad
    then obtain e where "Route_addRoute reg r n h p handler methods st = (Some e, st)"
      using addRoute_invalid [of handler methods p st r reg n h] by blast
    then show "snd (Route_addRoute reg r n h p handler methods st) = st" by simp
  qed
  have c3: "\<not> (methods = [] \<or> p = [] \<or> p ! 0 \<noteq> CHR ''/''
          \<or> (\<exists>pre post. p = pre @ ''//'' @ post)
          \<or> MiddlewareMaxNum (ship st) < int (length (composed r (heap st r))))
      \<longrightarrow> Route_addRoute reg r n h p (Some f) methods st =
            registerAll reg n h p (foldr (\<lambda>m g. m g) (composed r (heap st r)) f) methods st"
  proof
    assume nb: "\<not> (methods = [] \<or> p = [] \<or> p ! 0 \<noteq> CHR ''/''
          \<or> (\<exists>pre post. p = pre @ ''//'' @ post)
          \<or> MiddlewareMaxNum (ship st) < int (length (composed r (heap st r))))"
    have "strings_Index p ''//'' = - 1"
      using nb strings_Index_found [of p "''//''"] by auto
    with nb show "Route_addRoute reg r n h p (Some f) methods st =
            registerAll reg n h p (foldr (\<lambda>m g. m g) (composed r (heap st r)) f) methods st"
      using addRoute_valid [of methods p r st reg n h f] by auto
  qed
  have c4: "(\<forall>m \<in> set methods. \<forall>s. fst (reg n h p m g s) = None)
      \<longrightarrow> registerAll reg n h p g methods st =
            (None, st\<lparr>ship := fold (\<lambda>m s. snd (reg n h p m g s)) methods (ship st)\<rparr>)"
    using registerAll_fold [of methods reg n h p g st] by blast
  have c5: "Route_Method reg r handler methods st =
        Route_addRoute reg r (name (heap st r)) (host (heap st r)) (path (heap st r))
          handler methods st"
    by (simp add: Route_Method_def)
  have c6: "CHR '':'' \<in> set (path (heap st r)) \<or> CHR ''*'' \<in> set (path (heap st r))
      \<longrightarrow> Route_StaticFile reg md5 notFound ctxFile r filePath st = (Some URLParamsInStatic, st)
        \<and> Route_StaticFS reg pathJoin fileServer notFound r fs st = (Some URLParamsInStatic, st)"
    using StaticFile_params [of st r reg md5 notFound ctxFile filePath]
      StaticFS_params [of st r reg pathJoin fileServer notFound fs] by blast
  from c1 c2 c3 c4 c5 c6 show ?thesis by (intro conjI)
qed


text \<open>
  The path \<^verbatim>\<open>/a//b\<close> is refused and nothing changes; the path \<^verbatim>\<open>/a\<close> with the methods
  \<^verbatim>\<open>GET\<close> and \<^verbatim>\<open>HEAD\<close> gives two entries in that order; \<^verbatim>\<open>StaticFile\<close> on the route
  \<^verbatim>\<open>/a:b\<close> is refused.
\<close>

theorem Route_addRoute_fails_iff_witness:
  "(\<exists>e. fst (Route_addRoute (recordRoute :: (RouteInfo list, unit) registrar) 0 [] [] ''/a//b''
            (Some notFound0) [''GET''] prog0) = Some e \<and> \<not> isShipPanic e)
   \<and> snd (Route_addRoute (recordRoute :: (RouteInfo list, unit) registrar) 0 [] [] ''/a//b''
            (Some notFound0) [''GET''] prog0) = prog0
   \<and> fst (Route_addRoute (recordRoute :: (RouteInfo list, unit) registrar) 0 [] [] ''/a''
            (Some notFound0) [''GET'', ''HEAD''] prog0) = None
   \<and> map Method (table (ship (snd (Route_addRoute
            (recordRoute :: (RouteInfo list, unit) registrar) 0 [] [] ''/a''
            (Some notFound0) [''GET'', ''HEAD''] prog0)))) = [''GET'', ''HEAD'']
   \<and> Route_StaticFile (recordRoute :: (RouteInfo list, unit) registrar) digest0 notFound0 ctxFile0
        0 ''f.txt'' progParam = (Some URLParamsInStatic, progParam)"
proof -
  let ?reg = "recordRoute :: (RouteInfo list, unit) registrar"
  let ?g = "foldr (\<lambda>m g. m g) (composed 0 (heap prog0 0)) notFound0"
  have sl: "\<exists>pre post. ''/a//b'' = pre @ ''//'' @ post"
    by (rule exI [of _ "''/a''"], rule exI [of _ "''b''"]) simp
  note bad = Route_addRoute_fails_iff [where reg = ?reg and r = 0 and n = "[]" and h = "[]"
      and p = "''/a//b''" and handler = "Some notFound0" and methods = "[''GET'']"
      and st = prog0]
  have w1: "\<exists>e. fst (Route_addRoute ?reg 0 [] [] ''/a//b'' (Some notFound0) [''GET''] prog0) = Some e
              \<and> \<not> isShipPanic e"
    using bad sl by blast
  have w2: "snd (Route_addRoute ?reg 0 [] [] ''/a//b'' (Some notFound0) [''GET''] prog0) = prog0"
    using bad sl by blast
  have nsl: "\<not> (\<exists>pre post. ''/a'' = pre @ ''//'' @ post)"
    using strings_Index_found [of "''/a''" "''//''"] Index_a by simp
  have len: "\<not> MiddlewareMaxNum (ship prog0) < int (length (composed 0 (heap prog0 0)))"
    by (simp add: composed_def buildHeaderMiddleware_def prog0_def)
  have quiet: "\<forall>m \<in> set [''GET'', ''HEAD'']. \<forall>s. fst (?reg [] [] ''/a'' m ?g s) = None"
    by (simp add: recordRoute_def)
  note good = Route_addRoute_fails_iff [where reg = ?reg and r = 0 and n = "[]" and h = "[]"
      and p = "''/a''" and f = notFound0 and g = ?g and methods = "[''GET'', ''HEAD'']"
      and st = prog0]
  have run: "Route_addRoute ?reg 0 [] [] ''/a'' (Some notFound0) [''GET'', ''HEAD''] prog0 =
      (None, prog0\<lparr>ship := fold (\<lambda>m s. snd (?reg [] [] ''/a'' m ?g s)) [''GET'', ''HEAD'']
                               (ship prog0)\<rparr>)"
    using good nsl len quiet by simp
  have tb: "table (ship prog0) = []"
    by (simp add: prog0_def)
  have w3: "fst (Route_addRoute ?reg 0 [] [] ''/a'' (Some notFound0) [''GET'', ''HEAD''] prog0) = None"
    unfolding run by simp
  have w4: "map Method (table (ship (snd (Route_addRoute ?reg 0 [] [] ''/a''
            (Some notFound0) [''GET'', ''HEAD''] prog0)))) = [''GET'', ''HEAD'']"
    unfolding run by (simp add: recordRoute_def tb)
  have colon: "CHR '':'' \<in> set (path (heap progParam 0)) \<or> CHR ''*'' \<in> set (path (heap progParam 0))"
    by (simp add: progParam_def)
  have w5: "Route_StaticFile ?reg digest0 notFound0 ctxFile0 0 ''f.txt'' progParam
        = (Some URLParamsInStatic, progParam)"
    using Route_addRoute_fails_iff [where reg = ?reg and r = 0 and st = progParam
        and ?md5.0 = digest0 and notFound = notFound0 and ctxFile = ctxFile0
        and filePath = "''f.txt''"] colon
    by blast
  from w1 w2 w3 w4 w5 show ?thesis by (intro conjI)
qed

text \<open>
  As stated, claim C3 fails for \<^verbatim>\<open>StaticFile\<close>: on the route \<^verbatim>\<open>/a:b\<close> it panics and
  registers nothing, although its handlers are not nil, it names its methods, the path
  starts with a slash and has no doubled slash, and no middleware is composed.
\<close>

theorem StaticFile_extra_failure_counterexample:
  "fst (Route_StaticFile (recordRoute :: (RouteInfo list, unit) registrar) digest0 notFound0
          ctxFile0 0 ''f.txt'' progParam) = Some URLParamsInStatic
   \<and> path (heap progParam 0) \<noteq> []
   \<and> path (heap progParam 0) ! 0 = CHR ''/''
   \<and> strings_Index (path (heap progParam 0)) ''//'' = - 1
   \<and> int (length (composed 0 (heap progParam 0))) \<le> MiddlewareMaxNum (ship progParam)"
proof -
  have colon: "CHR '':'' \<in> set (path (heap progParam 0)) \<or> CHR ''*'' \<in> set (path (heap progParam 0))"
    by (simp add: progParam_def)
  have a: "fst (Route_StaticFile (recordRoute :: (RouteInfo list, unit) registrar) digest0 notFound0
          ctxFile0 0 ''f.txt'' progParam) = Some URLParamsInStatic"
    by (simp add: StaticFile_params [OF colon])
  have b: "path (heap progParam 0) = ''/a:b''"
    by (simp add: progParam_def)
  have c: "strings_Index ''/a:b'' ''//'' = - 1"
    by (simp add: strings_Index_def strings_HasPrefix_def)
  have d: "int (length (composed 0 (heap progParam 0))) \<le> MiddlewareMaxNum (ship progParam)"
    by (simp add: composed_def buildHeaderMiddleware_def progParam_def)
  show ?thesis
    using a c d unfolding b by simp
qed

text \<open>
  Claim C10. \<^verbatim>\<open>StaticFile\<close>, \<^verbatim>\<open>StaticFS\<close> and \<^verbatim>\<open>Static\<close> panic, and leave the state as it
  was, whenever the route's path contains \<^verbatim>\<open>:\<close> or \<^verbatim>\<open>*\<close>.
\<close>

theorem static_routes_reject_params:
  assumes "CHR '':'' \<in> set (path (heap st r)) \<or> CHR ''*'' \<in> set (path (heap st r))"
  shows "Route_StaticFile reg md5 notFound ctxFile r filePath st = (Some URLParamsInStatic, st)
       \<and> Route_StaticFS reg pathJoin fileServer notFound r fs st = (Some URLParamsInStatic, st)
       \<and> Route_Static reg pathJoin fileServer notFound httpDir r dirpath st =
           (Some URLParamsInStatic, st)"
  using assms StaticFile_params [of st r reg md5 notFound ctxFile filePath]
    StaticFS_params [of st r reg pathJoin fileServer notFound]
  by (simp add: Route_Static_def)

text \<open>
  On the route \<^verbatim>\<open>/a:b\<close> the three static registrations panic and register nothing.
\<close>

theorem static_routes_reject_params_witness:
  "Route_StaticFile (recordRoute :: (RouteInfo list, unit) registrar) digest0 notFound0 ctxFile0
       0 ''f.txt'' progParam = (Some URLParamsInStatic, progParam)
   \<and> Route_StaticFS (recordRoute :: (RouteInfo list, unit) registrar) pathJoin0 fileServer0
       notFound0 0 (httpDir0 ''/srv'') progParam = (Some URLParamsInStatic, progParam)
   \<and> Route_Static (recordRoute :: (RouteInfo list, unit) registrar) pathJoin0 fileServer0
       notFound0 httpDir0 0 ''/srv'' progParam = (Some URLParamsInStatic, progParam)"
proof -
  have colon: "CHR '':'' \<in> set (path (heap progParam 0)) \<or> CHR ''*'' \<in> set (path (heap progParam 0))"
    by (simp add: progParam_def)
  show ?thesis
    using static_routes_reject_params [OF colon,
        of "recordRoute :: (RouteInfo list, unit) registrar" digest0 notFound0 ctxFile0
           "''f.txt''" pathJoin0 fileServer0 "httpDir0 ''/srv''" httpDir0 "''/srv''"]
    by simp
qed

section \<open>Static files\<close>

text \<open>
  Claim C8. Every file opened through the file system that \<^verbatim>\<open>Route.Static\<close> installs
  answers \<^verbatim>\<open>Readdir\<close> with nothing, for every count, whatever the underlying file
  lists; it is otherwise the underlying file, and it opens exactly when the underlying
  file opens.
\<close>

theorem onlyFileFS_hides_listing:
  "Route_Static reg pathJoin fileServer notFound httpDir r dirpath st =
     Route_StaticFS reg pathJoin fileServer notFound r (onlyFileFS_Open (httpDir dirpath)) st
   \<and> (onlyFileFS_Open fs w nm = Inr f \<longrightarrow>
        Readdir f count = ([], None)
        \<and> (\<exists>g. fs w nm = Inr g \<and> osFile f = osFile g))
   \<and> ((\<exists>f. onlyFileFS_Open fs w nm = Inr f) = (\<exists>g. fs w nm = Inr g))"
  by (auto simp add: Route_Static_def newOnlyFileFS_def onlyFileFS_Open_def notDirFile_def
      split: sum.splits)

theorem onlyFileFS_hides_listing_witness:
  "(\<exists>f. newOnlyFileFS httpDir0 ''/srv'' (worldOf files0 prog0) ''pictures'' = Inr f
       \<and> Readdir f 10 = ([], None))
   \<and> length (fst (Readdir listingFile 10)) = 2"
proof -
  obtain f where f: "onlyFileFS_Open (httpDir0 ''/srv'') (worldOf files0 prog0) ''pictures'' = Inr f"
    by (simp add: onlyFileFS_Open_def httpDir0_def)
  have "Readdir f 10 = ([], None)"
    using onlyFileFS_hides_listing [of _ _ _ _ _ _ _ _ "httpDir0 ''/srv''" "worldOf files0 prog0"
        "''pictures''" f 10] f
    by blast
  then show ?thesis
    using f by (simp add: newOnlyFileFS_def listingFile_def)
qed

lemma registerAll_heap: "heap (snd (registerAll reg n h p f methods st)) = heap st"
  by (induction methods arbitrary: st) (auto split: prod.splits option.splits)

lemma StaticFile_registers:
  assumes "CHR '':'' \<notin> set (path (heap st r))" and "CHR ''*'' \<notin> set (path (heap st r))"
    and "path (heap st r) \<noteq> []" and "path (heap st r) ! 0 = CHR ''/''"
    and "strings_Index (path (heap st r)) ''//'' = - 1"
    and "int (length (composed r (heap st r))) \<le> MiddlewareMaxNum (ship st)"
  shows "Route_StaticFile (recordRoute :: (RouteInfo list, 'x) registrar) md5 notFound ctxFile r filePath st =
     (None, st\<lparr>ship := (ship st)\<lparr>table := table (ship st) @
        [\<lparr>Name = [], Host = host (heap st r), Path = path (heap st r), Method = ''GET'',
          Handler = foldr (\<lambda>m g. m g) (composed r (heap st r)) (\<lambda>w ctx. ctxFile filePath w ctx)\<rparr>,
         \<lparr>Name = [], Host = host (heap st r), Path = path (heap st r), Method = ''HEAD'',
          Handler = foldr (\<lambda>m g. m g) (composed r (heap st r))
                      (\<lambda>w ctx. serveFileMetadata md5 notFound filePath w ctx)\<rparr>]\<rparr>\<rparr>)"
proof -
  let ?get = "foldr (\<lambda>m g. m g) (composed r (heap st r)) (\<lambda>w ctx. ctxFile filePath w ctx)"
  let ?st1 = "st\<lparr>ship := (ship st)\<lparr>table := table (ship st) @
        [\<lparr>Name = [], Host = host (heap st r), Path = path (heap st r), Method = ''GET'',
          Handler = ?get\<rparr>]\<rparr>\<rparr>"
  have m: "[''GET''] \<noteq> []" and m': "[''HEAD''] \<noteq> []" by simp_all
  have first: "Route_addRoute recordRoute r [] (host (heap st r)) (path (heap st r))
      (Some (\<lambda>w ctx. ctxFile filePath w ctx)) [''GET''] st = (None, ?st1)"
    unfolding addRoute_valid [OF m assms(3-6)] registerAll_recordRoute by simp
  have h1: "heap ?st1 = heap st" and s1: "MiddlewareMaxNum (ship ?st1) = MiddlewareMaxNum (ship st)"
    by simp_all
  have a3: "path (heap ?st1 r) \<noteq> []" and a4: "path (heap ?st1 r) ! 0 = CHR ''/''"
    and a5: "strings_Index (path (heap ?st1 r)) ''//'' = - 1"
    and a6: "int (length (composed r (heap ?st1 r))) \<le> MiddlewareMaxNum (ship ?st1)"
    using assms(3-6) unfolding h1 s1 by simp_all
  have second: "Route_addRoute recordRoute r [] (host (heap ?st1 r)) (path (heap ?st1 r))
      (Some (\<lambda>w ctx. serveFileMetadata md5 notFound filePath w ctx)) [''HEAD''] ?st1 =
      registerAll recordRoute [] (host (heap ?st1 r)) (path (heap ?st1 r))
        (foldr (\<lambda>m g. m g) (composed r (heap ?st1 r))
           (\<lambda>w ctx. serveFileMetadata md5 notFound filePath w ctx)) [''HEAD''] ?st1"
    by (rule addRoute_valid [OF m' a3 a4 a5 a6])
  have second': "Route_addRoute recordRoute r [] (host (heap ?st1 r)) (path (heap ?st1 r))
      (Some (\<lambda>w ctx. serveFileMetadata md5 notFound filePath w ctx)) [''HEAD''] ?st1 =
      (None, st\<lparr>ship := (ship st)\<lparr>table := table (ship st) @
        [\<lparr>Name = [], Host = host (heap st r), Path = path (heap st r), Method = ''GET'',
          Handler = ?get\<rparr>,
         \<lparr>Name = [], Host = host (heap st r), Path = path (heap st r), Method = ''HEAD'',
          Handler = foldr (\<lambda>m g. m g) (composed r (heap st r))
                      (\<lambda>w ctx. serveFileMetadata md5 notFound filePath w ctx)\<rparr>]\<rparr>\<rparr>)"
    unfolding second registerAll_recordRoute by simp
  have guard: "\<not> (strings_Contains (path (heap st r)) '':'' \<or> strings_Contains (path (heap st r)) ''*'')"
    using assms(1,2) by (simp add: strings_Contains_char)
  show ?thesis
    unfolding Route_StaticFile_def
    by (simp only: guard if_False first second' prod.case option.case)
qed

lemma serveFileMetadata_ok:
  assumes "files w fn = Inr f" and "Stat f = Inr fi" and "\<not> IsDir fi" and "ReadAll f = Inr bytes"
  shows "serveFileMetadata md5 notFound fn w ctx =
     (None, ctx\<lparr>respHeader :=
               filter (\<lambda>kv. fst kv \<noteq> HeaderContentLength)
                 (filter (\<lambda>kv. fst kv \<noteq> HeaderEtag) (respHeader ctx) @ [(HeaderEtag, fmt_x (md5 bytes))])
               @ [(HeaderContentLength, fmt_d (Size fi))],
             respStatus := StatusOK\<rparr>)"
  using assms
  by (simp add: serveFileMetadata_def ctx_NoContent_def ctx_SetHeader_def)

lemma header_names_differ: "HeaderEtag \<noteq> HeaderContentLength"
  by (simp add: HeaderEtag_def HeaderContentLength_def)

text \<open>
  Claim C7. \<^verbatim>\<open>StaticFile\<close> on a valid route registers, for the route's path, a \<^verbatim>\<open>GET\<close>
  handler that hands the file path to \<^verbatim>\<open>Context.File\<close> and a \<^verbatim>\<open>HEAD\<close> handler that is
  \<^verbatim>\<open>serveFileMetadata\<close>, both inside the route's middlewares. For a regular file that can
  be read, the \<^verbatim>\<open>HEAD\<close> handler answers 200, writes no body, and sets \<^verbatim>\<open>ETag\<close> to the
  hexadecimal digest of the content and \<^verbatim>\<open>Content-Length\<close> to the size that \<^verbatim>\<open>Stat\<close>
  reports; when opening, inspecting or reading the file fails it returns a 500 error and
  leaves the response alone; for a directory it is the not-found handler.
\<close>

theorem StaticFile_head_metadata:
  "(files w fn = Inl err \<longrightarrow>
      serveFileMetadata md5 notFound fn w ctx =
        (Some (HTTPError StatusInternalServerError err), ctx))
   \<and> (files w fn = Inr f \<and> Stat f = Inl err \<longrightarrow>
      serveFileMetadata md5 notFound fn w ctx =
        (Some (HTTPError StatusInternalServerError err), ctx))
   \<and> (files w fn = Inr f \<and> Stat f = Inr fi \<and> IsDir fi \<longrightarrow>
      serveFileMetadata md5 notFound fn w ctx = notFound w ctx)
   \<and> (files w fn = Inr f \<and> Stat f = Inr fi \<and> \<not> IsDir fi \<and> ReadAll f = Inl err \<longrightarrow>
      serveFileMetadata md5 notFound fn w ctx =
        (Some (HTTPError StatusInternalServerError err), ctx))
   \<and> (files w fn = Inr f \<and> Stat f = Inr fi \<and> \<not> IsDir fi \<and> ReadAll f = Inr bytes \<longrightarrow>
      (\<exists>ctx'. serveFileMetadata md5 notFound fn w ctx = (None, ctx')
          \<and> respStatus ctx' = StatusOK
          \<and> respBody ctx' = respBody ctx
          \<and> map snd (filter (\<lambda>kv. fst kv = HeaderEtag) (respHeader ctx')) = [fmt_x (md5 bytes)]
          \<and> map snd (filter (\<lambda>kv. fst kv = HeaderContentLength) (respHeader ctx')) =
              [fmt_d (Size fi)]))
   \<and> (CHR '':'' \<notin> set (path (heap st r)) \<and> CHR ''*'' \<notin> set (path (heap st r))
       \<and> path (heap st r) \<noteq> [] \<and> path (heap st r) ! 0 = CHR ''/''
       \<and> strings_Index (path (heap st r)) ''//'' = - 1
       \<and> int (length (composed r (heap st r))) \<le> MiddlewareMaxNum (ship st) \<longrightarrow>
      Route_StaticFile (recordRoute :: (RouteInfo list, 'x) registrar) md5 notFound ctxFile r filePath st =
        (None, st\<lparr>ship := (ship st)\<lparr>table := table (ship st) @
           [\<lparr>Name = [], Host = host (heap st r), Path = path (heap st r), Method = ''GET'',
             Handler = foldr (\<lambda>m g. m g) (composed r (heap st r))
                         (\<lambda>w ctx. ctxFile filePath w ctx)\<rparr>,
            \<lparr>Name = [], Host = host (heap st r), Path = path (heap st r), Method = ''HEAD'',
             Handler = foldr (\<lambda>m g. m g) (composed r (heap st r))
                         (\<lambda>w ctx. serveFileMetadata md5 notFound filePath w ctx)\<rparr>]\<rparr>\<rparr>))"
proof -
  have c1: "files w fn = Inl err \<longrightarrow>
      serveFileMetadata md5 notFound fn w ctx =
        (Some (HTTPError StatusInternalServerError err), ctx)"
    by (simp add: serveFileMetadata_def NewHTTPError_NewError_def)
  have c2: "files w fn = Inr f \<and> Stat f = Inl err \<longrightarrow>
      serveFileMetadata md5 notFound fn w ctx =
        (Some (HTTPError StatusInternalServerError err), ctx)"
    by (simp add: serveFileMetadata_def NewHTTPError_NewError_def)
  have c3: "files w fn = Inr f \<and> Stat f = Inr fi \<and> IsDir fi \<longrightarrow>
      serveFileMetadata md5 notFound fn w ctx = notFound w ctx"
    by (simp add: serveFileMetadata_def)
  have c4: "files w fn = Inr f \<and> Stat f = Inr fi \<and> \<not> IsDir fi \<and> ReadAll f = Inl err \<longrightarrow>
      serveFileMetadata md5 notFound fn w ctx =
        (Some (HTTPError StatusInternalServerError err), ctx)"
    by (simp add: serveFileMetadata_def NewHTTPError_NewError_def)
  have c5: "files w fn = Inr f \<and> Stat f = Inr fi \<and> \<not> IsDir fi \<and> ReadAll f = Inr bytes \<longrightarrow>
      (\<exists>ctx'. serveFileMetadata md5 notFound fn w ctx = (None, ctx')
          \<and> respStatus ctx' = StatusOK
          \<and> respBody ctx' = respBody ctx
          \<and> map snd (filter (\<lambda>kv. fst kv = HeaderEtag) (respHeader ctx')) = [fmt_x (md5 bytes)]
          \<and> map snd (filter (\<lambda>kv. fst kv = HeaderContentLength) (respHeader ctx')) =
              [fmt_d (Size fi)])"
  proof
    assume a: "files w fn = Inr f \<and> Stat f = Inr fi \<and> \<not> IsDir fi \<and> ReadAll f = Inr bytes"
    show "\<exists>ctx'. serveFileMetadata md5 notFound fn w ctx = (None, ctx')
          \<and> respStatus ctx' = StatusOK
          \<and> respBody ctx' = respBody ctx
          \<and> map snd (filter (\<lambda>kv. fst kv = HeaderEtag) (respHeader ctx')) = [fmt_x (md5 bytes)]
          \<and> map snd (filter (\<lambda>kv. fst kv = HeaderContentLength) (respHeader ctx')) =
              [fmt_d (Size fi)]"
      using a header_names_differ
      by (auto simp add: serveFileMetadata_ok [of w fn f fi bytes] filter_empty_conv)
  qed
  have c6: "CHR '':'' \<notin> set (path (heap st r)) \<and> CHR ''*'' \<notin> set (path (heap st r))
       \<and> path (heap st r) \<noteq> [] \<and> path (heap st r) ! 0 = CHR ''/''
       \<and> strings_Index (path (heap st r)) ''//'' = - 1
       \<and> int (length (composed r (heap st r))) \<le> MiddlewareMaxNum (ship st) \<longrightarrow>
      Route_StaticFile (recordRoute :: (RouteInfo list, 'x) registrar) md5 notFound ctxFile r filePath st =
        (None, st\<lparr>ship := (ship st)\<lparr>table := table (ship st) @
           [\<lparr>Name = [], Host = host (heap st r), Path = path (heap st r), Method = ''GET'',
             Handler = foldr (\<lambda>m g. m g) (composed r (heap st r))
                         (\<lambda>w ctx. ctxFile filePath w ctx)\<rparr>,
            \<lparr>Name = [], Host = host (heap st r), Path = path (heap st r), Method = ''HEAD'',
             Handler = foldr (\<lambda>m g. m g) (composed r (heap st r))
                         (\<lambda>w ctx. serveFileMetadata md5 notFound filePath w ctx)\<rparr>]\<rparr>\<rparr>)"
    using StaticFile_registers [of st r md5 notFound ctxFile filePath] by blast
  from c1 c2 c3 c4 c5 c6 show ?thesis by (intro conjI)
qed


lemma fmt_x_digest0: "fmt_x (digest0 bs) = ''001fa0ff''"
  by (simp add: fmt_x_def digest0_def hexDigit_def)

lemma fmt_d_5: "fmt_d 5 = ''5''"
  by (simp add: fmt_d_def natDigits.simps hexDigit_def)

text \<open>
  With a digest whose bytes are \<^verbatim>\<open>00 1f a0 ff\<close>: the file of five bytes answers 200 with
  \<^verbatim>\<open>ETag: 001fa0ff\<close> and \<^verbatim>\<open>Content-Length: 5\<close>; a missing file, a failing \<^verbatim>\<open>Stat\<close> and a
  failing read give 500; a directory gives the not-found handler; and \<^verbatim>\<open>StaticFile\<close> on
  the route \<^verbatim>\<open>/a\<close> registers \<^verbatim>\<open>GET\<close> and \<^verbatim>\<open>HEAD\<close>.
\<close>

theorem StaticFile_head_metadata_witness:
  "(\<exists>ctx'. serveFileMetadata digest0 notFound0 ''f.txt'' (worldOf files0 prog0) ctx0 = (None, ctx')
       \<and> respStatus ctx' = 200 \<and> respBody ctx' = []
       \<and> map snd (filter (\<lambda>kv. fst kv = ''ETag'') (respHeader ctx')) = [''001fa0ff'']
       \<and> map snd (filter (\<lambda>kv. fst kv = ''Content-Length'') (respHeader ctx')) = [''5''])
   \<and> serveFileMetadata digest0 notFound0 ''gone'' (worldOf files0 prog0) ctx0 =
       (Some (HTTPError 500 ''no such file or directory''), ctx0)
   \<and> serveFileMetadata digest0 notFound0 ''nostat'' (worldOf files0 prog0) ctx0 =
       (Some (HTTPError 500 ''stat failed''), ctx0)
   \<and> serveFileMetadata digest0 notFound0 ''noread'' (worldOf files0 prog0) ctx0 =
       (Some (HTTPError 500 ''input/output error''), ctx0)
   \<and> serveFileMetadata digest0 notFound0 ''dir'' (worldOf files0 prog0) ctx0 =
       notFound0 (worldOf files0 prog0) ctx0
   \<and> map Method (table (ship (snd (Route_StaticFile
        (recordRoute :: (RouteInfo list, unit) registrar) digest0 notFound0 ctxFile0 0 ''f.txt''
        prog0)))) = [''GET'', ''HEAD'']"
proof -
  let ?w = "worldOf files0 prog0"
  let ?reg = "recordRoute :: (RouteInfo list, unit) registrar"
  have f1: "files ?w ''f.txt'' = Inr \<lparr>Stat = Inr \<lparr>IsDir = False, Size = 5\<rparr>, ReadAll = Inr ''hello''\<rparr>"
    and f2: "files ?w ''gone'' = Inl ''no such file or directory''"
    and f3: "files ?w ''nostat'' = Inr \<lparr>Stat = Inl ''stat failed'', ReadAll = Inr []\<rparr>"
    and f4: "files ?w ''noread'' = Inr \<lparr>Stat = Inr \<lparr>IsDir = False, Size = 7\<rparr>,
                                        ReadAll = Inl ''input/output error''\<rparr>"
    and f5: "files ?w ''dir'' = Inr \<lparr>Stat = Inr \<lparr>IsDir = True, Size = 4096\<rparr>,
                                     ReadAll = Inl ''is a directory''\<rparr>"
    by (simp_all add: worldOf_def files0_def)
  have w1: "\<exists>ctx'. serveFileMetadata digest0 notFound0 ''f.txt'' ?w ctx0 = (None, ctx')
       \<and> respStatus ctx' = 200 \<and> respBody ctx' = []
       \<and> map snd (filter (\<lambda>kv. fst kv = ''ETag'') (respHeader ctx')) = [''001fa0ff'']
       \<and> map snd (filter (\<lambda>kv. fst kv = ''Content-Length'') (respHeader ctx')) = [''5'']"
    using StaticFile_head_metadata [where w = ?w and ?md5.0 = digest0 and notFound = notFound0
        and ctx = ctx0 and st = prog0 and r = 0 and ctxFile = ctxFile0 and filePath = "''f.txt''"
        and fn = "''f.txt''" and bytes = "''hello''"
        and f = "\<lparr>Stat = Inr \<lparr>IsDir = False, Size = 5\<rparr>, ReadAll = Inr ''hello''\<rparr>"
        and fi = "\<lparr>IsDir = False, Size = 5\<rparr>", THEN conjunct2, THEN conjunct2, THEN conjunct2, THEN conjunct2, THEN conjunct1] f1
    by (simp add: fmt_x_digest0 fmt_d_5 StatusOK_def HeaderEtag_def HeaderContentLength_def
        ctx0_def)
  have w2: "serveFileMetadata digest0 notFound0 ''gone'' ?w ctx0 =
       (Some (HTTPError 500 ''no such file or directory''), ctx0)"
    using StaticFile_head_metadata [where w = ?w and ?md5.0 = digest0 and notFound = notFound0
        and ctx = ctx0 and st = prog0 and r = 0 and ctxFile = ctxFile0 and filePath = "''f.txt''"
        and fn = "''gone''" and err = "''no such file or directory''", THEN conjunct1] f2
    by (simp add: StatusInternalServerError_def)
  have w3: "serveFileMetadata digest0 notFound0 ''nostat'' ?w ctx0 =
       (Some (HTTPError 500 ''stat failed''), ctx0)"
    using StaticFile_head_metadata [where w = ?w and ?md5.0 = digest0 and notFound = notFound0
        and ctx = ctx0 and st = prog0 and r = 0 and ctxFile = ctxFile0 and filePath = "''f.txt''"
        and fn = "''nostat''" and err = "''stat failed''"
        and f = "\<lparr>Stat = Inl ''stat failed'', ReadAll = Inr []\<rparr>", THEN conjunct2, THEN conjunct1] f3
    by (simp add: StatusInternalServerError_def)
  have w4: "serveFileMetadata digest0 notFound0 ''noread'' ?w ctx0 =
       (Some (HTTPError 500 ''input/output error''), ctx0)"
    using StaticFile_head_metadata [where w = ?w and ?md5.0 = digest0 and notFound = notFound0
        and ctx = ctx0 and st = prog0 and r = 0 and ctxFile = ctxFile0 and filePath = "''f.txt''"
        and fn = "''noread''" and err = "''input/output error''"
        and f = "\<lparr>Stat = Inr \<lparr>IsDir = False, Size = 7\<rparr>, ReadAll = Inl ''input/output error''\<rparr>"
        and fi = "\<lparr>IsDir = False, Size = 7\<rparr>", THEN conjunct2, THEN conjunct2, THEN conjunct2, THEN conjunct1] f4
    by (simp add: StatusInternalServerError_def)
  have w5: "serveFileMetadata digest0 notFound0 ''dir'' ?w ctx0 = notFound0 ?w ctx0"
    using StaticFile_head_metadata [where w = ?w and ?md5.0 = digest0 and notFound = notFound0
        and ctx = ctx0 and st = prog0 and r = 0 and ctxFile = ctxFile0 and filePath = "''f.txt''"
        and fn = "''dir''"
        and f = "\<lparr>Stat = Inr \<lparr>IsDir = True, Size = 4096\<rparr>, ReadAll = Inl ''is a directory''\<rparr>"
        and fi = "\<lparr>IsDir = True, Size = 4096\<rparr>", THEN conjunct2, THEN conjunct2, THEN conjunct1] f5
    by simp
  have p: "path (heap prog0 0) = ''/a''" and tb: "table (ship prog0) = []"
    by (simp_all add: prog0_def)
  have len: "int (length (composed 0 (heap prog0 0))) \<le> MiddlewareMaxNum (ship prog0)"
    by (simp add: composed_def buildHeaderMiddleware_def prog0_def)
  have w6: "map Method (table (ship (snd (Route_StaticFile ?reg digest0 notFound0 ctxFile0 0
        ''f.txt'' prog0)))) = [''GET'', ''HEAD'']"
    using StaticFile_head_metadata [where w = ?w and ?md5.0 = digest0 and notFound = notFound0
        and ctx = ctx0 and st = prog0 and r = 0 and ctxFile = ctxFile0 and filePath = "''f.txt''"
        and ?'x = unit, THEN conjunct2, THEN conjunct2, THEN conjunct2, THEN conjunct2, THEN conjunct2] len Index_a
    unfolding p
    by (simp add: tb)
  from w1 w2 w3 w4 w5 w6 show ?thesis by (intro conjI)
qed

section \<open>Mutating a route after registration\<close>

lemma worldOf_mutators:
  "worldOf fs (Route_Use r ms st) = worldOf fs st"
  "worldOf fs (Route_Name r n st) = worldOf fs st"
  "worldOf fs (Route_Host r h st) = worldOf fs st"
  "worldOf fs (Route_NoMiddlewares r st) = worldOf fs st"
  by (auto simp add: worldOf_def Route_Use_def Route_Name_def Route_Host_def
      Route_NoMiddlewares_def updRoute_def)

lemma afterGET_eq:
  "afterGET = (Route_HasHeader canon0 0 ''X-A'' [] progPlain)
     \<lparr>ship := \<lparr>MiddlewareMaxNum = 128,
               table = [\<lparr>Name = [], Host = [], Path = ''/a'', Method = ''GET'',
                         Handler = (\<lambda>w ctx. checkHeaders (routeHeaders w 0) (traceHandler ''H'') w ctx)\<rparr>]\<rparr>\<rparr>"
proof -
  let ?st = "Route_HasHeader canon0 0 ''X-A'' [] progPlain"
  have r: "heap ?st 0 = \<lparr>host = [], path = ''/a'', name = [], mdwares = [],
                         headers = [\<lparr>Key = ''X-A'', Values = []\<rparr>]\<rparr>"
    and s: "ship ?st = \<lparr>MiddlewareMaxNum = 128, table = []\<rparr>"
    by (simp_all add: Route_HasHeader_def updRoute_def progPlain_def canon0_def)
  have c: "composed 0 (heap ?st 0) = [\<lambda>next w ctx. checkHeaders (routeHeaders w 0) next w ctx]"
    unfolding r by (simp add: composed_def buildHeaderMiddleware_def)
  have l: "int (length (composed 0 (heap ?st 0))) \<le> MiddlewareMaxNum (ship ?st)"
    unfolding c s by simp
  have m: "[''GET''] \<noteq> []" and p: "''/a'' \<noteq> []" and sl: "''/a'' ! 0 = CHR ''/''"
    by simp_all
  have "Route_GET (recordRoute :: (RouteInfo list, unit) registrar) 0 (Some (traceHandler ''H'')) ?st =
      Route_addRoute recordRoute 0 [] [] ''/a'' (Some (traceHandler ''H'')) [''GET''] ?st"
    by (simp add: Route_GET_def Route_Method_def r)
  also have "\<dots> = registerAll recordRoute [] [] ''/a''
      (foldr (\<lambda>m g. m g) (composed 0 (heap ?st 0)) (traceHandler ''H'')) [''GET''] ?st"
    by (rule addRoute_valid [OF m p sl Index_a l])
  finally show ?thesis
    unfolding afterGET_def registerAll_recordRoute c
    by (simp add: s)
qed

text \<open>
  Claim C5 fails on the code for \<^verbatim>\<open>HasHeader\<close>. The header check is a closure over the
  route pointer and ranges over \<^verbatim>\<open>r.headers\<close> when the request arrives. The handler
  registered by \<^verbatim>\<open>GET\<close> after \<^verbatim>\<open>HasHeader("X-A")\<close> accepts a request that carries \<^verbatim>\<open>X-A\<close>;
  once \<^verbatim>\<open>HasHeader("X-B")\<close> has been called on the same route, the same registered handler
  rejects the same request with a bad-request error.
\<close>

theorem HasHeader_after_registration_changes_handler:
  "table (ship afterSecondHasHeader) = table (ship afterGET)
   \<and> (case table (ship afterGET) of
        [ri] \<Rightarrow>
          Handler ri (worldOf noFiles afterGET) (request [(''X-A'', ''1'')]) =
            traceHandler ''H'' (worldOf noFiles afterGET) (request [(''X-A'', ''1'')])
          \<and> Handler ri (worldOf noFiles afterSecondHasHeader) (request [(''X-A'', ''1'')]) =
            (Some (HTTPError 400 (''missing the header '' @ [CHR 0x27] @ ''X-B'' @ [CHR 0x27])),
             request [(''X-A'', ''1'')])
      | _ \<Rightarrow> False)"
proof -
  have t: "table (ship afterGET) =
      [\<lparr>Name = [], Host = [], Path = ''/a'', Method = ''GET'',
        Handler = (\<lambda>w ctx. checkHeaders (routeHeaders w 0) (traceHandler ''H'') w ctx)\<rparr>]"
    unfolding afterGET_eq by simp
  have h1: "routeHeaders (worldOf noFiles afterGET) 0 = [\<lparr>Key = ''X-A'', Values = []\<rparr>]"
    unfolding afterGET_eq
    by (simp add: worldOf_def Route_HasHeader_def updRoute_def progPlain_def canon0_def)
  have h2: "routeHeaders (worldOf noFiles afterSecondHasHeader) 0 =
      [\<lparr>Key = ''X-A'', Values = []\<rparr>, \<lparr>Key = ''X-B'', Values = []\<rparr>]"
    unfolding afterSecondHasHeader_def afterGET_eq
    by (simp add: worldOf_def Route_HasHeader_def updRoute_def progPlain_def canon0_def)
  have t2: "table (ship afterSecondHasHeader) = table (ship afterGET)"
    by (simp add: afterSecondHasHeader_def Route_HasHeader_def updRoute_def)
  have q: "reqHeader (request [(''X-A'', ''1'')]) ''X-A'' = ''1''"
    "reqHeader (request [(''X-A'', ''1'')]) ''X-B'' = []"
    by (simp_all add: request_def)
  show ?thesis
    unfolding t
    by (simp add: t2 t h1 h2 q ErrBadRequest_NewError_def StatusBadRequest_def)
qed

section \<open>Prefixes and middlewares of groups\<close>

lemma newGroup_Inr:
  "newGroup pprefix pre ms = Inr g \<Longrightarrow>
     prefix g = pprefix @ strings_TrimSuffix pre ''/'' \<and> gmdwares g = ms
     \<and> strings_TrimSuffix pre ''/'' \<noteq> [] \<and> strings_TrimSuffix pre ''/'' ! 0 = CHR ''/''"
  by (auto simp add: newGroup_def Let_def split: if_splits)

lemma TrimSuffix_slash:
  "strings_TrimSuffix s ''/'' = (if s \<noteq> [] \<and> last s = CHR ''/'' then butlast s else s)"
proof (cases "s = []")
  case True
  then show ?thesis by (simp add: strings_TrimSuffix_def strings_HasSuffix_def)
next
  case False
  then have d: "drop (length s - Suc 0) s = [last s]"
    by (metis One_nat_def append_butlast_last_id append_eq_conv_conj length_butlast)
  from False have l: "Suc 0 \<le> length s"
    by (cases s) simp_all
  show ?thesis
    using False d l
    by (auto simp add: strings_TrimSuffix_def strings_HasSuffix_def butlast_conv_take)
qed

lemma nested_prefix:
  "nested g specs = Inr g' \<Longrightarrow>
     prefix g' = prefix g @ concat (map (\<lambda>s. strings_TrimSuffix (fst s) ''/'') specs)
     \<and> gmdwares g' = gmdwares g @ concat (map snd specs)"
proof (induction specs arbitrary: g)
  case Nil
  then show ?case by simp
next
  case (Cons s specs)
  obtain pre ms where s: "s = (pre, ms)" by (cases s)
  from Cons.prems obtain g1 where g1: "Group_Group g pre ms = Inr g1"
    and rest: "nested g1 specs = Inr g'"
    unfolding s by (auto split: sum.splits)
  from g1 have "prefix g1 = prefix g @ strings_TrimSuffix pre ''/''"
    and "gmdwares g1 = gmdwares g @ ms"
    using newGroup_Inr [of "prefix g" pre "gmdwares g @ ms" g1]
    by (simp_all add: Group_Group_def)
  with Cons.IH [OF rest] show ?case
    by (simp add: s)
qed

text \<open>
  Claim C6. A child made by \<^verbatim>\<open>Group.Group\<close> or \<^verbatim>\<open>Group.GroupNone\<close> has the parent's
  prefix followed by its own prefix without one trailing slash; \<^verbatim>\<open>Group\<close> gives it the
  parent's middlewares followed by the new ones, \<^verbatim>\<open>GroupNone\<close> the new ones only. Along a
  chain of nested \<^verbatim>\<open>Group\<close> calls the prefix is the concatenation of all the trimmed
  prefixes. Both calls succeed exactly when the trimmed prefix is not empty and starts
  with a slash.
\<close>

theorem Group_child_prefix:
  "(Group_Group g pre ms = Inr c \<longrightarrow>
      prefix c = prefix g @ strings_TrimSuffix pre ''/'' \<and> gmdwares c = gmdwares g @ ms)
   \<and> (Group_GroupNone g pre ms = Inr c' \<longrightarrow>
      prefix c' = prefix g @ strings_TrimSuffix pre ''/'' \<and> gmdwares c' = ms)
   \<and> strings_TrimSuffix pre ''/'' =
        (if pre \<noteq> [] \<and> last pre = CHR ''/'' then butlast pre else pre)
   \<and> (nested g specs = Inr d \<longrightarrow>
      prefix d = prefix g @ concat (map (\<lambda>s. strings_TrimSuffix (fst s) ''/'') specs))
   \<and> ((\<exists>c. Group_Group g pre ms = Inr c)
        = (strings_TrimSuffix pre ''/'' \<noteq> [] \<and> strings_TrimSuffix pre ''/'' ! 0 = CHR ''/''))
   \<and> ((\<exists>c. Group_GroupNone g pre ms = Inr c)
        = (strings_TrimSuffix pre ''/'' \<noteq> [] \<and> strings_TrimSuffix pre ''/'' ! 0 = CHR ''/''))"
proof -
  have c1: "Group_Group g pre ms = Inr c \<longrightarrow>
      prefix c = prefix g @ strings_TrimSuffix pre ''/'' \<and> gmdwares c = gmdwares g @ ms"
    using newGroup_Inr [of "prefix g" pre "gmdwares g @ ms" c]
    by (simp add: Group_Group_def)
  have c2: "Group_GroupNone g pre ms = Inr c' \<longrightarrow>
      prefix c' = prefix g @ strings_TrimSuffix pre ''/'' \<and> gmdwares c' = ms"
    using newGroup_Inr [of "prefix g" pre ms c']
    by (simp add: Group_GroupNone_def)
  have c3: "strings_TrimSuffix pre ''/'' =
        (if pre \<noteq> [] \<and> last pre = CHR ''/'' then butlast pre else pre)"
    by (rule TrimSuffix_slash)
  have c4: "nested g specs = Inr d \<longrightarrow>
      prefix d = prefix g @ concat (map (\<lambda>s. strings_TrimSuffix (fst s) ''/'') specs)"
    using nested_prefix [of g specs d] by blast
  have c5: "(\<exists>c. Group_Group g pre ms = Inr c)
        = (strings_TrimSuffix pre ''/'' \<noteq> [] \<and> strings_TrimSuffix pre ''/'' ! 0 = CHR ''/'')"
    by (auto simp add: Group_Group_def newGroup_def Let_def)
  have c6: "(\<exists>c. Group_GroupNone g pre ms = Inr c)
        = (strings_TrimSuffix pre ''/'' \<noteq> [] \<and> strings_TrimSuffix pre ''/'' ! 0 = CHR ''/'')"
    by (auto simp add: Group_GroupNone_def newGroup_def Let_def)
  from c1 c2 c3 c4 c5 c6 show ?thesis by (intro conjI)
qed


text \<open>
  Under the group \<^verbatim>\<open>/api\<close> with middleware \<^verbatim>\<open>A\<close>: \<^verbatim>\<open>Group("/v1/", B)\<close> has the prefix
  \<^verbatim>\<open>/api/v1\<close> and the middlewares \<^verbatim>\<open>A\<close>, \<^verbatim>\<open>B\<close>; \<^verbatim>\<open>GroupNone("/v1/", B)\<close> has the same
  prefix and \<^verbatim>\<open>B\<close> alone; \<^verbatim>\<open>Group("/v1/")\<close> then \<^verbatim>\<open>Group("/users")\<close> has the prefix
  \<^verbatim>\<open>/api/v1/users\<close>.
\<close>

theorem Group_child_prefix_witness:
  "(\<exists>c. Group_Group groupApi ''/v1/'' [traceMiddleware ''B''] = Inr c
       \<and> prefix c = ''/api/v1''
       \<and> gmdwares c = [traceMiddleware ''A'', traceMiddleware ''B''])
   \<and> (\<exists>c. Group_GroupNone groupApi ''/v1/'' [traceMiddleware ''B''] = Inr c
       \<and> prefix c = ''/api/v1''
       \<and> gmdwares c = [traceMiddleware ''B''])
   \<and> (\<exists>d. nested groupApi [(''/v1/'', []), (''/users'', [])] = Inr d
       \<and> prefix d = ''/api/v1/users'')"
proof -
  have tr: "strings_TrimSuffix ''/v1/'' ''/'' = ''/v1''"
    and tr': "strings_TrimSuffix ''/users'' ''/'' = ''/users''"
    by (simp_all add: strings_TrimSuffix_def strings_HasSuffix_def)
  have ok: "strings_TrimSuffix ''/v1/'' ''/'' \<noteq> [] \<and> strings_TrimSuffix ''/v1/'' ''/'' ! 0 = CHR ''/''"
    unfolding tr by simp
  have pa: "prefix groupApi = ''/api''" and ma: "gmdwares groupApi = [traceMiddleware ''A'']"
    by (simp_all add: groupApi_def)
  note t = Group_child_prefix [where g = groupApi and pre = "''/v1/''"
      and ms = "[traceMiddleware ''B'']"
      and specs = "[(''/v1/'', []), (''/users'', [])]"]
  obtain c where c: "Group_Group groupApi ''/v1/'' [traceMiddleware ''B''] = Inr c"
    using t ok by blast
  obtain c' where c': "Group_GroupNone groupApi ''/v1/'' [traceMiddleware ''B''] = Inr c'"
    using t ok by blast
  have w1: "prefix c = ''/api/v1'' \<and> gmdwares c = [traceMiddleware ''A'', traceMiddleware ''B'']"
    using Group_child_prefix [where g = groupApi and pre = "''/v1/''"
        and ms = "[traceMiddleware ''B'']" and c = c] c
    by (simp add: tr pa ma)
  have w2: "prefix c' = ''/api/v1'' \<and> gmdwares c' = [traceMiddleware ''B'']"
    using Group_child_prefix [where g = groupApi and pre = "''/v1/''"
        and ms = "[traceMiddleware ''B'']" and c' = c'] c'
    by (simp add: tr pa)
  obtain d where d: "nested groupApi [(''/v1/'', []), (''/users'', [])] = Inr d"
    by (simp add: Group_Group_def newGroup_def tr tr')
  have w3: "prefix d = ''/api/v1/users''"
    using Group_child_prefix [where g = groupApi
        and specs = "[(''/v1/'', []), (''/users'', [])]" and d = d] d
    by (simp add: tr tr' pa)
  from c c' d w1 w2 w3 show ?thesis by blast
qed

section \<open>Stopping the runner\<close>

lemma pending_append: "pending (xs @ ys) = pending xs @ pending ys"
  by (induction xs rule: pending.induct) auto

lemma pending_fresh: "pending (map (\<lambda>f. Some (NewOnceRunner f)) fs) = fs"
  by (induction fs) (auto simp add: NewOnceRunner_def)

lemma pending_marked: "pending (map markRan xs) = []"
  by (induction xs rule: pending.induct) (auto simp add: markRan_def)

lemma RegisterOnShutdown_stopfs:
  "RegisterOnShutdown fs r = r\<lparr>stopfs := stopfs r @ map (\<lambda>f. Some (NewOnceRunner f)) fs\<rparr>"
  by (induction fs arbitrary: r) auto

lemma Run_markRan:
  "OnceRunner_Run f c w = (f', w') \<Longrightarrow>
     Some f' = markRan (Some f) \<and> w' = fold (\<lambda>f w. f c w) (pending [Some f]) w"
  by (cases "ran f") (auto simp add: OnceRunner_Run_def markRan_def)

text \<open>
  The loop up to an index: the hooks below it are marked, those that were pending have
  run from the highest index down, and each found the channel as the runner had it when
  the loop began, since the loop never touches it.
\<close>

lemma runHooksFrom_take:
  "n \<le> length (stopfs r) \<Longrightarrow>
     runHooksFrom (int n - 1) r =
       r\<lparr>stopfs := map markRan (take n (stopfs r)) @ drop n (stopfs r),
         world := fold (\<lambda>f w. f (doneClosed r) w) (rev (pending (take n (stopfs r)))) (world r)\<rparr>"
proof (induction n arbitrary: r)
  case 0
  show ?case by (simp add: runHooksFrom.simps)
next
  case (Suc n)
  let ?fs = "stopfs r"
  let ?c = "doneClosed r"
  have n: "n < length ?fs" using Suc.prems by simp
  have tk: "take (Suc n) ?fs = take n ?fs @ [?fs ! n]"
    using n by (simp add: take_Suc_conv_app_nth)
  have dr: "drop n ?fs = ?fs ! n # drop (Suc n) ?fs"
    using n by (simp add: Cons_nth_drop_Suc)
  show ?case
  proof (cases "?fs ! n")
    case None
    have "runHooksFrom (int (Suc n) - 1) r = runHooksFrom (int n - 1) r"
      by (subst runHooksFrom.simps) (simp add: None)
    also have "\<dots> = r\<lparr>stopfs := map markRan (take n ?fs) @ drop n ?fs,
         world := fold (\<lambda>f w. f ?c w) (rev (pending (take n ?fs))) (world r)\<rparr>"
      using Suc.IH [of r] n by simp
    also have "\<dots> = r\<lparr>stopfs := map markRan (take (Suc n) ?fs) @ drop (Suc n) ?fs,
         world := fold (\<lambda>f w. f ?c w) (rev (pending (take (Suc n) ?fs))) (world r)\<rparr>"
      unfolding tk dr by (simp add: None pending_append markRan_def)
    finally show ?thesis .
  next
    case (Some f)
    obtain f' w' where run: "OnceRunner_Run f ?c (world r) = (f', w')"
      by (cases "OnceRunner_Run f ?c (world r)")
    let ?r1 = "r\<lparr>stopfs := ?fs[n := Some f'], world := w'\<rparr>"
    have f': "Some f' = markRan (Some f)"
      and w': "w' = fold (\<lambda>f w. f ?c w) (pending [Some f]) (world r)"
      using Run_markRan [OF run] by simp_all
    have "runHooksFrom (int (Suc n) - 1) r = runHooksFrom (int n - 1) ?r1"
      by (subst runHooksFrom.simps) (simp add: Some run)
    also have "\<dots> = ?r1\<lparr>stopfs := map markRan (take n (stopfs ?r1)) @ drop n (stopfs ?r1),
         world := fold (\<lambda>f w. f (doneClosed ?r1) w) (rev (pending (take n (stopfs ?r1))))
                    (world ?r1)\<rparr>"
      using Suc.IH [of ?r1] n by simp
    also have "\<dots> = r\<lparr>stopfs := map markRan (take n ?fs) @ Some f' # drop (Suc n) ?fs,
         world := fold (\<lambda>f w. f ?c w) (rev (pending (take n ?fs))) w'\<rparr>"
      using n by (simp add: drop_update_cancel Cons_nth_drop_Suc [symmetric] upd_conv_take_nth_drop)
    also have "\<dots> = r\<lparr>stopfs := map markRan (take (Suc n) ?fs) @ drop (Suc n) ?fs,
         world := fold (\<lambda>f w. f ?c w) (rev (pending (take (Suc n) ?fs))) (world r)\<rparr>"
      unfolding tk f' w' by (simp add: Some pending_append)
    finally show ?thesis .
  qed
qed

lemma runHooksFrom_all:
  "runHooksFrom (int (length (stopfs r)) - 1) r =
     r\<lparr>stopfs := map markRan (stopfs r),
       world := fold (\<lambda>f w. f (doneClosed r) w) (rev (pending (stopfs r))) (world r)\<rparr>"
  using runHooksFrom_take [of "length (stopfs r)" r] by simp

lemma runStopfs_open:
  "\<not> doneClosed r \<Longrightarrow>
     runStopfs r = (None, r\<lparr>stopfs := map markRan (stopfs r),
       world := fold (\<lambda>f w. f False w) (rev (pending (stopfs r))) (world r),
       doneClosed := True\<rparr>)"
  by (simp add: runStopfs_def runHooksFrom_all Let_def)

lemma stop_Run_fresh:
  "\<not> stopRan r \<Longrightarrow> \<not> doneClosed r \<Longrightarrow>
     stop_Run r = (None, r\<lparr>stopfs := map markRan (stopfs r),
       world := fold (\<lambda>f w. f False w) (rev (pending (stopfs r))) (world r),
       doneClosed := True, stopRan := True\<rparr>)"
  by (simp add: stop_Run_def runStopfs_open)

lemma fire_first:
  assumes "Server r = Some s" and "\<not> stopRan r" and "\<not> shutRan r" and "\<not> doneClosed r"
  shows "stopRan (fire sd t r) \<and> doneClosed (fire sd t r) \<and> Server (fire sd t r) \<noteq> None
       \<and> world (fire sd t r) = fold (\<lambda>f w. f False w) (rev (pending (stopfs r))) (world r)"
proof -
  obtain err s' where sd: "sd s = (err, s')" by (cases "sd s")
  let ?r1 = "r\<lparr>Server := Some s'\<rparr>"
  have st: "stop_Run ?r1 = (None, ?r1\<lparr>stopfs := map markRan (stopfs ?r1),
       world := fold (\<lambda>f w. f False w) (rev (pending (stopfs ?r1))) (world ?r1),
       doneClosed := True, stopRan := True\<rparr>)"
    using assms(2,4) by (simp add: stop_Run_fresh)
  have sh: "Shutdown sd r = (Returned err, ?r1\<lparr>stopfs := map markRan (stopfs ?r1),
       world := fold (\<lambda>f w. f False w) (rev (pending (stopfs ?r1))) (world ?r1),
       doneClosed := True, stopRan := True\<rparr>)"
    unfolding Shutdown_def by (simp add: assms(1) sd st)
  show ?thesis
    using assms(3) by (cases t) (simp_all add: Stop_def runShutdown_def sh)
qed

lemma fire_again:
  assumes "stopRan r" and "Server r \<noteq> None"
  shows "stopRan (fire sd t r) \<and> Server (fire sd t r) \<noteq> None
       \<and> world (fire sd t r) = world r \<and> doneClosed (fire sd t r) = doneClosed r
       \<and> stopfs (fire sd t r) = stopfs r"
proof -
  obtain s where s: "Server r = Some s" using assms(2) by auto
  obtain err s' where sd: "sd s = (err, s')" by (cases "sd s")
  have sh: "Shutdown sd r = (Returned err, r\<lparr>Server := Some s'\<rparr>)"
    unfolding Shutdown_def by (simp add: s sd stop_Run_def assms(1))
  show ?thesis
    using assms(1) s by (cases t) (simp_all add: Stop_def runShutdown_def sh)
qed

lemma fire_many_again:
  "stopRan r \<Longrightarrow> Server r \<noteq> None \<Longrightarrow>
     world (fold (fire sd) ts r) = world r \<and> doneClosed (fold (fire sd) ts r) = doneClosed r"
proof (induction ts arbitrary: r)
  case Nil
  show ?case by simp
next
  case (Cons t ts)
  from fire_again [OF Cons.prems, of sd t] Cons.IH [of "fire sd t r"]
  show ?case by simp
qed

lemma loop_keeps_gate: "doneClosed (runHooksFrom (int (length (stopfs r)) - 1) r) = doneClosed r"
  by (simp add: runHooksFrom_all)

text \<open>
  Claim C4. For hooks \<open>fs\<close> registered on a runner without hooks whose channel \<^verbatim>\<open>done\<close> is
  open, \<^verbatim>\<open>runStopfs\<close> ends in the state in which the hooks have run last to first, every
  one of them having found the channel still open (its argument is \<open>False\<close>), every hook
  is marked as run, and the channel is closed: the channel is closed after the last hook
  has run, \<^verbatim>\<open>Wait\<close> blocks before and returns afterwards. On a started runner, however
  many times and in whatever order \<^verbatim>\<open>Stop\<close> and \<^verbatim>\<open>Shutdown\<close> are called, one after
  another, every hook has run exactly once, last to first, with the channel open, and
  \<^verbatim>\<open>Wait\<close> returns.
\<close>

theorem shutdown_hooks_reverse_once:
  assumes "stopfs r = []" and "\<not> doneClosed r"
  shows "runStopfs (RegisterOnShutdown fs r) =
           (None, (RegisterOnShutdown fs r)
              \<lparr>stopfs := map markRan (stopfs (RegisterOnShutdown fs r)),
               world := fold (\<lambda>f w. f False w) (rev fs) (world r),
               doneClosed := True\<rparr>)
       \<and> world (snd (runStopfs (RegisterOnShutdown fs r))) =
           fold (\<lambda>f w. f False w) (rev fs) (world r)
       \<and> Wait (RegisterOnShutdown fs r) = None
       \<and> Wait (snd (runStopfs (RegisterOnShutdown fs r))) = Some ()
       \<and> pending (stopfs (RegisterOnShutdown fs r)) = fs
       \<and> pending (stopfs (snd (runStopfs (RegisterOnShutdown fs r)))) = []
       \<and> world (runHooksFrom (int (length (stopfs (RegisterOnShutdown fs r))) - 1)
                 (RegisterOnShutdown fs r)) = fold (\<lambda>f w. f False w) (rev fs) (world r)
       \<and> Wait (runHooksFrom (int (length (stopfs (RegisterOnShutdown fs r))) - 1)
                 (RegisterOnShutdown fs r)) = None
       \<and> runStopfs (RegisterOnShutdown fs r) =
           (None, (runHooksFrom (int (length (stopfs (RegisterOnShutdown fs r))) - 1)
                     (RegisterOnShutdown fs r))\<lparr>doneClosed := True\<rparr>)
       \<and> (Server r \<noteq> None \<and> \<not> stopRan r \<and> \<not> shutRan r \<and> ts \<noteq> [] \<longrightarrow>
            world (fold (fire sd) ts (RegisterOnShutdown fs r)) =
              fold (\<lambda>f w. f False w) (rev fs) (world r)
            \<and> Wait (fold (fire sd) ts (RegisterOnShutdown fs r)) = Some ())"
proof -
  let ?r = "RegisterOnShutdown fs r"
  let ?loop = "runHooksFrom (int (length (stopfs ?r)) - 1) ?r"
  have fs: "stopfs ?r = map (\<lambda>f. Some (NewOnceRunner f)) fs"
    and dc: "\<not> doneClosed ?r" and wr: "world ?r = world r"
    using assms by (simp_all add: RegisterOnShutdown_stopfs)
  have pd: "pending (stopfs ?r) = fs"
    unfolding fs by (rule pending_fresh)
  have c0: "runStopfs ?r = (None, ?r\<lparr>stopfs := map markRan (stopfs ?r),
               world := fold (\<lambda>f w. f False w) (rev fs) (world r), doneClosed := True\<rparr>)"
    using runStopfs_open [OF dc] by (simp add: pd wr)
  have c0a: "world (snd (runStopfs ?r)) = fold (\<lambda>f w. f False w) (rev fs) (world r)"
    unfolding c0 by simp
  have c0b: "Wait ?r = None"
    using dc by (simp add: Wait_def)
  have c1: "world ?loop = fold (\<lambda>f w. f False w) (rev fs) (world r)"
    using dc by (simp add: runHooksFrom_all pd wr)
  have c2: "Wait ?loop = None"
    using dc by (simp add: Wait_def loop_keeps_gate)
  have c3: "runStopfs ?r = (None, ?loop\<lparr>doneClosed := True\<rparr>)"
    using dc by (simp add: runStopfs_def Let_def loop_keeps_gate)
  have c4: "Wait (snd (runStopfs ?r)) = Some ()"
    unfolding c3 by (simp add: Wait_def)
  have c5: "pending (stopfs (snd (runStopfs ?r))) = []"
    unfolding c3 by (simp add: runHooksFrom_all pending_marked)
  have c6: "Server r \<noteq> None \<and> \<not> stopRan r \<and> \<not> shutRan r \<and> ts \<noteq> [] \<longrightarrow>
            world (fold (fire sd) ts ?r) = fold (\<lambda>f w. f False w) (rev fs) (world r)
            \<and> Wait (fold (fire sd) ts ?r) = Some ()"
  proof
    assume a: "Server r \<noteq> None \<and> \<not> stopRan r \<and> \<not> shutRan r \<and> ts \<noteq> []"
    then obtain t ts' where ts: "ts = t # ts'" by (cases ts) auto
    from a obtain s where s: "Server ?r = Some s"
      by (auto simp add: RegisterOnShutdown_stopfs)
    have nr: "\<not> stopRan ?r" "\<not> shutRan ?r"
      using a by (simp_all add: RegisterOnShutdown_stopfs)
    note first = fire_first [OF s nr dc, of sd t]
    from first fire_many_again [of "fire sd t ?r" sd ts']
    have "world (fold (fire sd) ts ?r) =
        fold (\<lambda>f w. f False w) (rev (pending (stopfs ?r))) (world ?r)"
      and "doneClosed (fold (fire sd) ts ?r)"
      unfolding ts by simp_all
    then show "world (fold (fire sd) ts ?r) = fold (\<lambda>f w. f False w) (rev fs) (world r)
            \<and> Wait (fold (fire sd) ts ?r) = Some ()"
      by (simp add: pd wr Wait_def)
  qed
  from c0 c0a c0b c4 pd c5 c1 c2 c3 c6 show ?thesis by (intro conjI)
qed

text \<open>
  The hooks \<^verbatim>\<open>h1\<close>, \<^verbatim>\<open>h2\<close>, \<^verbatim>\<open>h3\<close> log their name and whether they found the channel
  closed. After \<^verbatim>\<open>runStopfs\<close> on a started runner the log is \<^verbatim>\<open>h3\<close>, \<^verbatim>\<open>h2\<close>, \<^verbatim>\<open>h1\<close>, each
  with the channel open, and \<^verbatim>\<open>Wait\<close>, which blocked before, returns; \<^verbatim>\<open>Stop\<close>,
  \<^verbatim>\<open>Shutdown\<close>, \<^verbatim>\<open>Stop\<close> in a row leave the same three lines, once each.
\<close>

theorem shutdown_hooks_reverse_once_witness:
  "world (snd (runStopfs (RegisterOnShutdown [hook ''h1'', hook ''h2'', hook ''h3''] runnerStarted)))
     = [(''h3'', False), (''h2'', False), (''h1'', False)]
   \<and> Wait (RegisterOnShutdown [hook ''h1'', hook ''h2'', hook ''h3''] runnerStarted) = None
   \<and> Wait (snd (runStopfs (RegisterOnShutdown [hook ''h1'', hook ''h2'', hook ''h3''] runnerStarted)))
     = Some ()
   \<and> pending (stopfs (snd (runStopfs
        (RegisterOnShutdown [hook ''h1'', hook ''h2'', hook ''h3''] runnerStarted)))) = []
   \<and> world (fold (fire serverShutdown0) [ByStop, ByShutdown, ByStop]
        (RegisterOnShutdown [hook ''h1'', hook ''h2'', hook ''h3''] runnerStarted))
     = [(''h3'', False), (''h2'', False), (''h1'', False)]
   \<and> Wait (fold (fire serverShutdown0) [ByStop, ByShutdown, ByStop]
        (RegisterOnShutdown [hook ''h1'', hook ''h2'', hook ''h3''] runnerStarted)) = Some ()"
proof -
  have e: "stopfs runnerStarted = []" and o: "\<not> doneClosed runnerStarted"
    and w: "world runnerStarted = []"
    and g: "Server runnerStarted \<noteq> None \<and> \<not> stopRan runnerStarted \<and> \<not> shutRan runnerStarted
        \<and> [ByStop, ByShutdown, ByStop] \<noteq> []"
    by (simp_all add: runnerStarted_def NewRunner_def)
  have v: "fold (\<lambda>f w. f False w) (rev [hook ''h1'', hook ''h2'', hook ''h3''])
             (world runnerStarted) = [(''h3'', False), (''h2'', False), (''h1'', False)]"
    by (simp add: w hook_def)
  note t = shutdown_hooks_reverse_once [OF e o, of "[hook ''h1'', hook ''h2'', hook ''h3'']"
      "[ByStop, ByShutdown, ByStop]" serverShutdown0, unfolded v]
  from t g show ?thesis by blast
qed

text \<open>
  Claim C9. While no server has been set, \<^verbatim>\<open>Shutdown\<close> returns the error that the server
  has not been started and leaves the runner as it is; \<^verbatim>\<open>Stop\<close>, which drops that error,
  uses up its one-shot runner \<^verbatim>\<open>shut\<close> and changes nothing else: no hook runs, the flags
  of the hooks stay, and the channel \<^verbatim>\<open>done\<close> is not closed.
\<close>

theorem Shutdown_before_start:
  assumes "Server r = None"
  shows "Shutdown sd r = (Returned (Some ''the server has not been started''), r)
       \<and> Stop sd r = (if shutRan r then r else r\<lparr>shutRan := True\<rparr>)
       \<and> stopfs (Stop sd r) = stopfs r
       \<and> stopRan (Stop sd r) = stopRan r
       \<and> world (Stop sd r) = world r
       \<and> doneClosed (Stop sd r) = doneClosed r
       \<and> Wait (Stop sd r) = Wait r
       \<and> Server (Stop sd r) = None"
proof -
  have sh: "Shutdown sd r = (Returned (Some ''the server has not been started''), r)"
    using assms by (simp add: Shutdown_def)
  have st: "Stop sd r = (if shutRan r then r else r\<lparr>shutRan := True\<rparr>)"
    by (simp add: Stop_def runShutdown_def sh)
  show ?thesis
    unfolding st using sh assms by (simp add: Wait_def)
qed

text \<open>
  A runner with the hook \<^verbatim>\<open>h1\<close> that was never started: \<^verbatim>\<open>Shutdown\<close> returns the error,
  and after \<^verbatim>\<open>Stop\<close> the hook is still pending, nothing is logged and \<^verbatim>\<open>Wait\<close> blocks.
\<close>

theorem Shutdown_before_start_witness:
  "Shutdown serverShutdown0 (RegisterOnShutdown [hook ''h1''] runnerNew) =
     (Returned (Some ''the server has not been started''),
      RegisterOnShutdown [hook ''h1''] runnerNew)
   \<and> pending (stopfs (Stop serverShutdown0 (RegisterOnShutdown [hook ''h1''] runnerNew))) =
       [hook ''h1'']
   \<and> world (Stop serverShutdown0 (RegisterOnShutdown [hook ''h1''] runnerNew)) = []
   \<and> Wait (Stop serverShutdown0 (RegisterOnShutdown [hook ''h1''] runnerNew)) = None"
proof -
  have n: "Server (RegisterOnShutdown [hook ''h1''] runnerNew) = None"
    by (simp add: runnerNew_def NewRunner_def)
  show ?thesis
    using Shutdown_before_start [OF n, of serverShutdown0]
    by (simp add: runnerNew_def NewRunner_def NewOnceRunner_def Wait_def)
qed

end
